theory Spec2Isabelle
  imports Complex_Main
begin

section \<open>Data model\<close>

text \<open>
  The cart service stores JavaScript numbers, which are IEEE 754 doubles. Item counts
  are whole numbers and are modelled as \<open>int\<close>; prices and money totals are modelled
  by their values in \<open>rat\<close>. The totals of a cart are computed in double arithmetic:
  every operation is followed by the rounding \<open>fl\<close> defined below. The resolver of
  the offer tiers is given twice: on the integers, and in double arithmetic; the two
  agree on every total quantity below \<open>2 ^ 53\<close>, and the cart operations are stated
  with the resolver on the integers. Identifiers (user ids, fruit ids) are strings; a
  line stored in the database carries the text of the object id built from the fruit id
  of the request. Wall-clock fields (\<open>addedAt\<close>, \<open>updatedAt\<close>) are left out.
\<close>

datatype OfferType = NONE | BUY_1_GET_1_FREE | BUY_2_GET_3_FREE | BUY_3_GET_5_FREE

datatype PaymentMethod = CASH | CREDIT_CARD | DEBIT_CARD | UPI | NET_BANKING | WALLET

datatype TransactionStatus = PENDING | COMPLETED | CANCELLED | REFUNDED | FAILED

record PaidFree =
  paid :: int
  free :: int

subsection \<open>The arithmetic of the host language\<close>

text \<open>
  \<open>Math.floor\<close>, \<open>Math.ceil\<close> and \<open>Math.round\<close> of a double are whole numbers
  computed without rounding error; \<open>Math.round\<close> rounds halves up.
\<close>

definition Math_floor :: "rat \<Rightarrow> int" where
  "Math_floor x = \<lfloor>x\<rfloor>"

definition Math_ceil :: "rat \<Rightarrow> int" where
  "Math_ceil x = \<lceil>x\<rceil>"

definition Math_round :: "rat \<Rightarrow> int" where
  "Math_round x = \<lfloor>x + 1 / 2\<rfloor>"

text \<open>The remainder operator \<open>%\<close> takes the sign of the dividend.\<close>

definition js_rem :: "int \<Rightarrow> int \<Rightarrow> int" where
  "js_rem a b = sgn a * (\<bar>a\<bar> mod \<bar>b\<bar>)"

subsection \<open>Double-precision numbers\<close>

text \<open>
  Every number of the host language is an IEEE 754 double. A finite double is a rational
  number, so numbers are modelled by their values in \<open>rat\<close>, and every arithmetic
  operation returns the exact result rounded to the nearest double, ties to the even
  significand: \<open>fl\<close>. The binade of a positive number is found by halving or doubling
  it; the spacing of the doubles around \<open>x\<close> is \<open>2 powi ulp_exponent x\<close>, with 53
  significant bits and the subnormal spacing \<open>2 powi - 1074\<close> as the smallest.
  Overflow to an infinity is not represented: \<open>fl\<close> is the rounding of the format with
  unbounded exponent, which is the double rounding for every magnitude below
  \<open>2 ^ 1024 - 2 ^ 970\<close>. Not-a-number and the sign of zero are not represented either.
\<close>

function exponent_up :: "rat \<Rightarrow> int" where
  "exponent_up x = (if x < 2 then 0 else 1 + exponent_up (x / 2))"
  by pat_completeness auto
termination
proof (relation "measure (\<lambda>x. nat \<lfloor>x\<rfloor>)")
  show "wf (measure (\<lambda>x::rat. nat \<lfloor>x\<rfloor>))" by simp
next
  fix x :: rat
  assume "\<not> x < 2"
  then have "\<lfloor>x / 2\<rfloor> < \<lfloor>x\<rfloor>" and "0 < \<lfloor>x\<rfloor>" by linarith+
  then show "(x / 2, x) \<in> measure (\<lambda>x. nat \<lfloor>x\<rfloor>)" by simp
qed

function exponent_down :: "rat \<Rightarrow> int" where
  "exponent_down x = (if x \<le> 0 \<or> 1 \<le> x then 0 else exponent_down (2 * x) - 1)"
  by pat_completeness auto
termination
proof (relation "measure (\<lambda>x. nat \<lfloor>1 / x\<rfloor>)")
  show "wf (measure (\<lambda>x::rat. nat \<lfloor>1 / x\<rfloor>))" by simp
next
  fix x :: rat
  assume "\<not> (x \<le> 0 \<or> 1 \<le> x)"
  then have x: "0 < x" "x < 1" by auto
  define y where "y = 1 / x"
  have y: "1 < y" using x by (simp add: y_def)
  have e: "1 / (2 * x) = y / 2" by (simp add: y_def)
  have p: "0 < \<lfloor>y\<rfloor>" using y by linarith
  have "\<lfloor>y / 2\<rfloor> < \<lfloor>y\<rfloor>"
  proof (cases "y < 2")
    case True
    then have "\<lfloor>y / 2\<rfloor> = 0" using y by (simp add: floor_eq_iff)
    then show ?thesis using p by simp
  next
    case False
    then show ?thesis by linarith
  qed
  then have "\<lfloor>1 / (2 * x)\<rfloor> < \<lfloor>1 / x\<rfloor>" unfolding e y_def .
  moreover have "0 < \<lfloor>1 / x\<rfloor>" using p unfolding y_def .
  ultimately show "(2 * x, x) \<in> measure (\<lambda>x. nat \<lfloor>1 / x\<rfloor>)" by simp
qed

declare exponent_up.simps [simp del]

declare exponent_down.simps [simp del]

definition exponent :: "rat \<Rightarrow> int" where
  "exponent x = (if 1 \<le> x then exponent_up x else exponent_down x)"

definition roundTiesToEven :: "rat \<Rightarrow> int" where
  "roundTiesToEven x =
     (let f = \<lfloor>x\<rfloor>; d = x - of_int f
      in if d < 1 / 2 then f else if 1 / 2 < d then f + 1 else if even f then f else f + 1)"

definition ulp_exponent :: "rat \<Rightarrow> int" where
  "ulp_exponent x = max (exponent \<bar>x\<bar> - 52) (- 1074)"

definition fl :: "rat \<Rightarrow> rat" where
  "fl x = (if x = 0 then 0
           else of_int (roundTiesToEven (x / 2 powi ulp_exponent x)) * 2 powi ulp_exponent x)"

text \<open>An arithmetic result on whole numbers, rounded to a double and read as an integer.\<close>

definition fl_int :: "int \<Rightarrow> int" where
  "fl_int n = \<lfloor>fl (of_int n)\<rfloor>"

section \<open>Offer tier resolver\<close>

text \<open>
  The resolver on the integers: its statements with sums, differences and quotients
  taken exactly. This is what the code computes as long as no number in it reaches
  \<open>2 ^ 53\<close>.
\<close>

definition calculatePaidAndFree :: "int \<Rightarrow> OfferType \<Rightarrow> PaidFree" where
  "calculatePaidAndFree totalQuantity offerType =
     (if totalQuantity \<le> 0 then \<lparr>paid = 0, free = 0\<rparr>
      else case offerType of
        BUY_1_GET_1_FREE \<Rightarrow>
          (let cycleSize = 2;
               paidPerCycle = 1;
               completeCycles = Math_floor (of_int totalQuantity / of_int cycleSize);
               remainder = js_rem totalQuantity cycleSize;
               paid = completeCycles * paidPerCycle + remainder;
               free = totalQuantity - paid
           in \<lparr>paid = paid, free = free\<rparr>)
      | BUY_2_GET_3_FREE \<Rightarrow>
          (let cycleSize = 5;
               firstCyclePaid = 2
           in if totalQuantity \<le> cycleSize then
                (let paid = min totalQuantity firstCyclePaid;
                     free = totalQuantity - paid
                 in \<lparr>paid = paid, free = free\<rparr>)
              else
                (let afterFirstCycle = totalQuantity - cycleSize;
                     additionalPaid = Math_ceil (of_int afterFirstCycle / of_int cycleSize);
                     paid = firstCyclePaid + additionalPaid;
                     free = totalQuantity - paid
                 in \<lparr>paid = paid, free = free\<rparr>))
      | BUY_3_GET_5_FREE \<Rightarrow>
          (let cycleSize = 8;
               firstCyclePaid = 3
           in if totalQuantity \<le> cycleSize then
                (let paid = min totalQuantity firstCyclePaid;
                     free = totalQuantity - paid
                 in \<lparr>paid = paid, free = free\<rparr>)
              else
                (let afterFirstCycle = totalQuantity - cycleSize;
                     additionalPaid = Math_ceil (of_int afterFirstCycle / of_int cycleSize);
                     paid = firstCyclePaid + additionalPaid;
                     free = totalQuantity - paid
                 in \<lparr>paid = paid, free = free\<rparr>))
      | NONE \<Rightarrow> \<lparr>paid = totalQuantity, free = 0\<rparr>)"

text \<open>
  The resolver in the arithmetic of the host language, for a total quantity that is a
  whole number: the same statements, with every product, sum, difference and quotient
  rounded to a double. The remainder of two doubles, \<open>Math.min\<close>, \<open>Math.floor\<close>
  and \<open>Math.ceil\<close> are exact.
\<close>

definition calculatePaidAndFree_double :: "int \<Rightarrow> OfferType \<Rightarrow> PaidFree" where
  "calculatePaidAndFree_double totalQuantity offerType =
     (if totalQuantity \<le> 0 then \<lparr>paid = 0, free = 0\<rparr>
      else case offerType of
        BUY_1_GET_1_FREE \<Rightarrow>
          (let cycleSize = 2;
               paidPerCycle = 1;
               completeCycles = Math_floor (fl (of_int totalQuantity / of_int cycleSize));
               remainder = js_rem totalQuantity cycleSize;
               paid = fl_int (fl_int (completeCycles * paidPerCycle) + remainder);
               free = fl_int (totalQuantity - paid)
           in \<lparr>paid = paid, free = free\<rparr>)
      | BUY_2_GET_3_FREE \<Rightarrow>
          (let cycleSize = 5;
               firstCyclePaid = 2
           in if totalQuantity \<le> cycleSize then
                (let paid = min totalQuantity firstCyclePaid;
                     free = fl_int (totalQuantity - paid)
                 in \<lparr>paid = paid, free = free\<rparr>)
              else
                (let afterFirstCycle = fl_int (totalQuantity - cycleSize);
                     additionalPaid = Math_ceil (fl (of_int afterFirstCycle / of_int cycleSize));
                     paid = fl_int (firstCyclePaid + additionalPaid);
                     free = fl_int (totalQuantity - paid)
                 in \<lparr>paid = paid, free = free\<rparr>))
      | BUY_3_GET_5_FREE \<Rightarrow>
          (let cycleSize = 8;
               firstCyclePaid = 3
           in if totalQuantity \<le> cycleSize then
                (let paid = min totalQuantity firstCyclePaid;
                     free = fl_int (totalQuantity - paid)
                 in \<lparr>paid = paid, free = free\<rparr>)
              else
                (let afterFirstCycle = fl_int (totalQuantity - cycleSize);
                     additionalPaid = Math_ceil (fl (of_int afterFirstCycle / of_int cycleSize));
                     paid = fl_int (firstCyclePaid + additionalPaid);
                     free = fl_int (totalQuantity - paid)
                 in \<lparr>paid = paid, free = free\<rparr>))
      | NONE \<Rightarrow> \<lparr>paid = totalQuantity, free = 0\<rparr>)"

section \<open>Cart aggregation\<close>

record CartItem =
  fruitId :: string
  name :: string
  price :: rat
  quantity :: int
  offerType :: OfferType
  freeItems :: int

record Cart =
  items :: "CartItem list"
  totalItems :: int
  totalPrice :: rat
  discountAmount :: rat
  finalPrice :: rat

record Fruit =
  fruit_name :: string
  fruit_price :: rat
  fruit_offerType :: OfferType
  inStock :: bool
  stockQuantity :: int

record AddToCartDto =
  dto_fruitId :: string
  dto_quantity :: int

record UpdateCartItemDto =
  upd_quantity :: int

record CheckoutDto =
  dto_paymentMethod :: string
  dto_notes :: "string option"

record CartTotals =
  totals_totalItems :: int
  totals_totalPrice :: rat
  totals_discountAmount :: rat
  totals_finalPrice :: rat

datatype Error = Error string

text \<open>
  The totals are computed in double arithmetic: every product, sum, difference and
  quotient is rounded. \<open>Math.round\<close> of a double is exact.
\<close>

definition calculateDiscount :: "CartItem list \<Rightarrow> rat" where
  "calculateDiscount its =
     foldl (\<lambda>discount item.
              (let freeItemValue = fl (of_int (freeItems item) * price item)
               in fl (discount + freeItemValue))) 0 its"

definition calculateCartTotals :: "CartItem list \<Rightarrow> CartTotals" where
  "calculateCartTotals its =
     (let totalItems = foldl (\<lambda>acc item. fl_int (fl_int (acc + quantity item) + freeItems item)) 0 its;
          totalPrice = foldl (\<lambda>acc item.
                         fl (acc + fl (price item * of_int (fl_int (quantity item + freeItems item))))) 0 its;
          discountAmount = calculateDiscount its;
          finalPrice = fl (totalPrice - discountAmount)
      in \<lparr>totals_totalItems = totalItems,
          totals_totalPrice = fl (of_int (Math_round (fl (totalPrice * 100))) / 100),
          totals_discountAmount = fl (of_int (Math_round (fl (discountAmount * 100))) / 100),
          totals_finalPrice = fl (of_int (Math_round (fl (finalPrice * 100))) / 100)\<rparr>)"

definition emptyCart :: Cart where
  "emptyCart = \<lparr>items = [], totalItems = 0, totalPrice = 0, discountAmount = 0, finalPrice = 0\<rparr>"

definition formatCartResponse :: "Cart option \<Rightarrow> Cart" where
  "formatCartResponse c =
     (case c of
        None \<Rightarrow> emptyCart
      | Some cart \<Rightarrow>
          \<lparr>items = map (\<lambda>item. \<lparr>fruitId = fruitId item, name = name item, price = price item,
                                 quantity = quantity item, offerType = offerType item,
                                 freeItems = freeItems item\<rparr>) (items cart),
           totalItems = totalItems cart,
           totalPrice = totalPrice cart,
           discountAmount = discountAmount cart,
           finalPrice = finalPrice cart\<rparr>)"

text \<open>\<open>Array.prototype.findIndex\<close>: the first index whose element satisfies the test, or \<open>-1\<close>.\<close>

fun findIndex :: "('a \<Rightarrow> bool) \<Rightarrow> 'a list \<Rightarrow> int" where
  "findIndex P [] = - 1"
| "findIndex P (x # xs) =
     (if P x then 0
      else (let i = findIndex P xs in if i = - 1 then - 1 else i + 1))"

text \<open>\<open>xs.splice (start, deleteCount)\<close> for a start index inside the array.\<close>

definition splice :: "'a list \<Rightarrow> nat \<Rightarrow> nat \<Rightarrow> 'a list" where
  "splice xs start deleteCount = take start xs @ drop (start + deleteCount) xs"

text \<open>The four assignments \<open>cart.totalItems = totals.totalItems; ...\<close> that end every mutation.\<close>

definition assignTotals :: "Cart \<Rightarrow> CartTotals \<Rightarrow> Cart" where
  "assignTotals cart totals =
     cart\<lparr>totalItems := totals_totalItems totals,
          totalPrice := totals_totalPrice totals,
          discountAmount := totals_discountAmount totals,
          finalPrice := totals_finalPrice totals\<rparr>"

section \<open>Transactions and the service state\<close>

record ITransactionItem =
  ti_fruitId :: string
  fruitName :: string
  ti_quantity :: int
  pricePerUnit :: rat
  offerApplied :: OfferType
  freeItemsReceived :: int
  subtotal :: rat

record ITransactionHistory =
  userId :: string
  t_items :: "ITransactionItem list"
  totalAmount :: rat
  t_discountAmount :: rat
  finalAmount :: rat
  currency :: string
  paymentMethod :: PaymentMethod
  status :: TransactionStatus
  t_notes :: "string option"

text \<open>
  The authentication service is an external collaborator. What it answers to the current
  request is a parameter of \<open>checkout\<close>: the profile request yields the wallet balance or
  fails with a message, the deduction request succeeds or fails with a message. The
  requests that ask it to act are logged in the state.
\<close>

record AuthService =
  profile :: "string + rat"
  deductBalance :: "rat \<Rightarrow> string option"

datatype AuthRequest = DeductBalance rat | NotifyOrder rat

text \<open>
  The state of the service: the flag chosen at start-up, the in-memory cart map used
  under test, the three document collections (carts by user id, fruits by id, saved
  transactions), and the log of requests sent to the authentication service. Saving
  and loading documents are map operations; schema validation is not modelled.
  \<open>FruitModel\<close> maps a fruit id, as a request writes it, to the fruit that
  \<open>Fruit.findById\<close> answers for it.
\<close>

record State =
  USE_IN_MEMORY :: bool
  inMemoryCarts :: "string \<rightharpoonup> Cart"
  CartModel :: "string \<rightharpoonup> Cart"
  FruitModel :: "string \<rightharpoonup> Fruit"
  TransactionHistory :: "ITransactionHistory list"
  authRequests :: "AuthRequest list"

definition getInMemoryCart :: "State \<Rightarrow> string \<Rightarrow> State \<times> Cart" where
  "getInMemoryCart s uid =
     (case inMemoryCarts s uid of
        Some cart \<Rightarrow> (s, cart)
      | None \<Rightarrow> (s\<lparr>inMemoryCarts := (inMemoryCarts s)(uid \<mapsto> emptyCart)\<rparr>, emptyCart))"

definition getCart :: "State \<Rightarrow> string \<Rightarrow> State \<times> Cart" where
  "getCart s uid =
     (if USE_IN_MEMORY s then getInMemoryCart s uid
      else (s, formatCartResponse (CartModel s uid)))"

text \<open>
  The database branch keeps the fruit id of a line as an object id, and compares the
  text of that object id, \<open>item.fruitId.toString ()\<close>, with the fruit id of a request.
  The fruit ids under which the database finds a fruit are strings of 24 hexadecimal
  digits, and the text of the object id built from such a string is the same digits
  with the letters in lower case. The field \<open>fruitId\<close> of a line holds that text; the
  in-memory branch keeps the string of the request as it is.
\<close>

definition hexToLowerCase :: "char \<Rightarrow> char" where
  "hexToLowerCase c = (if c \<in> set ''ABCDEF'' then char_of (of_char c + (32::nat)) else c)"

definition ObjectId_toString :: "string \<Rightarrow> string" where
  "ObjectId_toString inputId = map hexToLowerCase inputId"

text \<open>
  Both backends of \<open>addToCart\<close> run the same statements on the line list: look the fruit
  id of the request up among the lines, re-resolve the existing line with the catalog's
  current offer, or push a new line. They differ in the fruit id the new line gets,
  \<open>newFruitId\<close>: the request's string in memory, the object id in the database.
\<close>

definition addToCart_items ::
  "string \<Rightarrow> CartItem list \<Rightarrow> AddToCartDto \<Rightarrow> Fruit \<Rightarrow> CartItem list" where
  "addToCart_items newFruitId its itemData fruit =
     (let existingItemIndex = findIndex (\<lambda>item. fruitId item = dto_fruitId itemData) its
      in if existingItemIndex \<noteq> - 1 then
           (let existingItem = its ! nat existingItemIndex;
                totalQuantity = quantity existingItem + freeItems existingItem + dto_quantity itemData;
                r = calculatePaidAndFree totalQuantity (fruit_offerType fruit)
            in its[nat existingItemIndex := existingItem\<lparr>quantity := paid r, freeItems := free r\<rparr>])
         else
           (let r = calculatePaidAndFree (dto_quantity itemData) (fruit_offerType fruit);
                newItem = \<lparr>fruitId = newFruitId, name = fruit_name fruit,
                           price = fruit_price fruit, quantity = paid r,
                           offerType = fruit_offerType fruit, freeItems = free r\<rparr>
            in its @ [newItem]))"

definition addToCart :: "State \<Rightarrow> string \<Rightarrow> AddToCartDto \<Rightarrow> State \<times> (Error + Cart)" where
  "addToCart s uid itemData =
     (case FruitModel s (dto_fruitId itemData) of
        None \<Rightarrow> (s, Inl (Error ''Fruit not found''))
      | Some fruit \<Rightarrow>
          if \<not> inStock fruit \<or> stockQuantity fruit < dto_quantity itemData then
            (s, Inl (Error ''Fruit is out of stock or insufficient quantity available''))
          else if USE_IN_MEMORY s then
            (let (s1, cart) = getInMemoryCart s uid;
                 cart1 = cart\<lparr>items := addToCart_items (dto_fruitId itemData) (items cart)
                                         itemData fruit\<rparr>;
                 cart2 = assignTotals cart1 (calculateCartTotals (items cart1))
             in (s1\<lparr>inMemoryCarts := (inMemoryCarts s1)(uid \<mapsto> cart2)\<rparr>, Inr cart2))
          else
            (let cart = (case CartModel s uid of None \<Rightarrow> emptyCart | Some c \<Rightarrow> c);
                 cart1 = cart\<lparr>items := addToCart_items (ObjectId_toString (dto_fruitId itemData))
                                         (items cart) itemData fruit\<rparr>;
                 cart2 = assignTotals cart1 (calculateCartTotals (items cart1))
             in (s\<lparr>CartModel := (CartModel s)(uid \<mapsto> cart2)\<rparr>,
                 Inr (formatCartResponse (Some cart2)))))"

text \<open>The statements of \<open>updateCartItem\<close> on a line list in which the line was found.\<close>

definition updateCartItem_items :: "CartItem list \<Rightarrow> int \<Rightarrow> UpdateCartItemDto \<Rightarrow> CartItem list" where
  "updateCartItem_items its itemIndex updateData =
     (if upd_quantity updateData \<le> 0 then splice its (nat itemIndex) 1
      else
        (let r = calculatePaidAndFree (upd_quantity updateData) (offerType (its ! nat itemIndex))
         in its[nat itemIndex := (its ! nat itemIndex)\<lparr>quantity := paid r, freeItems := free r\<rparr>]))"



definition clearCart :: "State \<Rightarrow> string \<Rightarrow> State \<times> Cart" where
  "clearCart s uid =
     (if USE_IN_MEMORY s then
        (s\<lparr>inMemoryCarts := (inMemoryCarts s)(uid := None)\<rparr>, emptyCart)
      else (s\<lparr>CartModel := (CartModel s)(uid := None)\<rparr>, emptyCart))"

section \<open>Checkout\<close>

text \<open>\<open>String.prototype.toUpperCase\<close> on the ASCII letters.\<close>

definition toUpperCase :: "string \<Rightarrow> string" where
  "toUpperCase str =
     map (\<lambda>c. let n = (of_char c :: nat) in if 97 \<le> n \<and> n \<le> 122 then char_of (n - 32) else c) str"

text \<open>\<open>Object.values (PaymentMethod)\<close>, each value with the member it denotes.\<close>

definition PaymentMethod_values :: "(string \<times> PaymentMethod) list" where
  "PaymentMethod_values =
     [(''CASH'', CASH), (''CREDIT_CARD'', CREDIT_CARD), (''DEBIT_CARD'', DEBIT_CARD),
      (''UPI'', UPI), (''NET_BANKING'', NET_BANKING), (''WALLET'', WALLET)]"

text \<open>
  Loading the cart at the start of \<open>checkout\<close>: the in-memory cart as it is, or the
  stored document with its totals recalculated; a missing or empty document is an error.
\<close>

definition loadCartData :: "State \<Rightarrow> string \<Rightarrow> State \<times> (Error + Cart)" where
  "loadCartData s uid =
     (if USE_IN_MEMORY s then
        (let (s1, cart) = getInMemoryCart s uid in (s1, Inr cart))
      else
        (case CartModel s uid of
           None \<Rightarrow> (s, Inl (Error ''Cart is empty''))
         | Some cart \<Rightarrow>
             if length (items cart) = 0 then (s, Inl (Error ''Cart is empty''))
             else (s, Inr (formatCartResponse
                             (Some (assignTotals cart (calculateCartTotals (items cart))))))))"

text \<open>
  The \<open>try\<close> block of the wallet payment: every error raised inside it, the
  insufficient balance included, is rethrown with the prefix of the \<open>catch\<close> clause.
\<close>

definition walletPayment :: "State \<Rightarrow> AuthService \<Rightarrow> Cart \<Rightarrow> State \<times> Error option" where
  "walletPayment s auth cartData =
     (case profile auth of
        Inl msg \<Rightarrow> (s, Some (Error (''Wallet payment failed: '' @ msg)))
      | Inr userBalance \<Rightarrow>
          if userBalance < finalPrice cartData then
            (s, Some (Error (''Wallet payment failed: '' @ ''Insufficient wallet balance'')))
          else
            (let s1 = s\<lparr>authRequests := authRequests s @ [DeductBalance (finalPrice cartData)]\<rparr>
             in case deductBalance auth (finalPrice cartData) of
                  Some msg \<Rightarrow> (s1, Some (Error (''Wallet payment failed: '' @ msg)))
                | None \<Rightarrow> (s1, None)))"

text \<open>
  The entry of a cart line in a transaction. Its subtotal is the product of the unit
  price and the paid count, written here without the rounding to a double, which
  leaves the product as it is whenever the product is a double.
\<close>

definition transactionItem :: "CartItem \<Rightarrow> ITransactionItem" where
  "transactionItem item =
     \<lparr>ti_fruitId = fruitId item,
      fruitName = name item,
      ti_quantity = quantity item,
      pricePerUnit = price item,
      offerApplied = offerType item,
      freeItemsReceived = freeItems item,
      subtotal = price item * of_int (quantity item)\<rparr>"

text \<open>The stock loop: each line decrements its fruit, if the catalog still has it.\<close>

fun decrementStock :: "(string \<rightharpoonup> Fruit) \<Rightarrow> CartItem list \<Rightarrow> (string \<rightharpoonup> Fruit)" where
  "decrementStock fm [] = fm"
| "decrementStock fm (item # rest) =
     decrementStock
       (case fm (fruitId item) of
          None \<Rightarrow> fm
        | Some f \<Rightarrow> fm(fruitId item \<mapsto>
                      f\<lparr>stockQuantity := stockQuantity f - (quantity item + freeItems item)\<rparr>))
       rest"

text \<open>
  \<open>checkout\<close>. The authorization header only selects what the authentication service
  answers, which is the parameter \<open>auth\<close>. The saved transaction is returned as it was
  built (the generated id and the final re-read with populated fruit references are not
  modelled).
\<close>

definition checkout ::
  "State \<Rightarrow> AuthService \<Rightarrow> string \<Rightarrow> CheckoutDto \<Rightarrow> State \<times> (Error + ITransactionHistory)" where
  "checkout s auth uid checkoutData =
     (case loadCartData s uid of
        (s1, Inl e) \<Rightarrow> (s1, Inl e)
      | (s1, Inr cartData) \<Rightarrow>
          if length (items cartData) = 0 then (s1, Inl (Error ''Cart is empty''))
          else
            (case map_of PaymentMethod_values (toUpperCase (dto_paymentMethod checkoutData)) of
               None \<Rightarrow> (s1, Inl (Error ''Invalid payment method''))
             | Some pm \<Rightarrow>
                 (case (if pm = WALLET then walletPayment s1 auth cartData else (s1, None)) of
                    (s2, Some e) \<Rightarrow> (s2, Inl e)
                  | (s2, None) \<Rightarrow>
                      (let transactionItems = map transactionItem (items cartData);
                           transaction =
                             \<lparr>userId = uid, t_items = transactionItems,
                              totalAmount = totalPrice cartData,
                              t_discountAmount = discountAmount cartData,
                              finalAmount = finalPrice cartData,
                              currency = ''INR'',
                              paymentMethod = pm,
                              status = COMPLETED,
                              t_notes = dto_notes checkoutData\<rparr>;
                           s3 = (if USE_IN_MEMORY s2 then s2
                                 else s2\<lparr>TransactionHistory := TransactionHistory s2 @ [transaction]\<rparr>);
                           s4 = s3\<lparr>FruitModel := decrementStock (FruitModel s3) (items cartData)\<rparr>;
                           s5 = s4\<lparr>authRequests := authRequests s4 @ [NotifyOrder (finalAmount transaction)]\<rparr>;
                           s6 = (if USE_IN_MEMORY s5
                                 then s5\<lparr>inMemoryCarts := (inMemoryCarts s5)(uid := None)\<rparr>
                                 else s5\<lparr>CartModel := (CartModel s5)(uid := None)\<rparr>)
                       in (s6, Inr transaction)))))"

section \<open>Sequences of cart mutations\<close>





text \<open>The cart a backend holds for a user.\<close>

definition storedCart :: "State \<Rightarrow> string \<Rightarrow> Cart option" where
  "storedCart s uid = (if USE_IN_MEMORY s then inMemoryCarts s uid else CartModel s uid)"

section \<open>The specification's own formulas\<close>

text \<open>
  The general first-cycle and steady-state policy as the specification words it, for a
  tier with first paid count \<open>F\<close> and first-cycle total \<open>C\<close>.
\<close>

definition generalPolicy :: "int \<Rightarrow> int \<Rightarrow> int \<Rightarrow> PaidFree" where
  "generalPolicy F C totalQuantity =
     (if totalQuantity \<le> C then
        \<lparr>paid = min totalQuantity F, free = totalQuantity - min totalQuantity F\<rparr>
      else
        (let extra = totalQuantity - C;
             additionalPaid = \<lceil>(of_int extra :: rat) / of_int C\<rceil>
         in \<lparr>paid = F + additionalPaid, free = totalQuantity - (F + additionalPaid)\<rparr>))"








section \<open>Notions for stating results\<close>

text \<open>
  Notions used to state what a mutation returns: the cart a user currently has, as
  \<open>getCart\<close> reads it; a line with its paid and free counts replaced by a resolver
  result; the cart with its line list replaced and its totals recalculated; and the
  state with a cart saved for a user in the backend that is in use.
\<close>

definition currentCart :: "State \<Rightarrow> string \<Rightarrow> Cart" where
  "currentCart s uid = snd (getCart s uid)"

definition withSplit :: "CartItem \<Rightarrow> PaidFree \<Rightarrow> CartItem" where
  "withSplit item r = item\<lparr>quantity := paid r, freeItems := free r\<rparr>"

definition recalculated :: "Cart \<Rightarrow> CartItem list \<Rightarrow> Cart" where
  "recalculated cart its = assignTotals (cart\<lparr>items := its\<rparr>) (calculateCartTotals its)"

text \<open>
  The fruit id a new line gets in the backend that is in use, and the fruit ids that
  are the text of an object id: 24 hexadecimal digits with the letters in lower case.
\<close>

definition newLineFruitId :: "State \<Rightarrow> string \<Rightarrow> string" where
  "newLineFruitId s fid = (if USE_IN_MEMORY s then fid else ObjectId_toString fid)"

definition canonicalObjectId :: "string \<Rightarrow> bool" where
  "canonicalObjectId fid \<longleftrightarrow> length fid = 24 \<and> list_all (\<lambda>c. c \<in> set ''0123456789abcdef'') fid"

definition saveCart :: "State \<Rightarrow> string \<Rightarrow> Cart \<Rightarrow> State" where
  "saveCart s uid cart =
     (if USE_IN_MEMORY s then s\<lparr>inMemoryCarts := (inMemoryCarts s)(uid \<mapsto> cart)\<rparr>
      else s\<lparr>CartModel := (CartModel s)(uid \<mapsto> cart)\<rparr>)"

section \<open>Example states\<close>

text \<open>
  A small catalog and an empty service state over it, for the concrete checks. The plum
  costs 0.1, the grape 1.115 and the berry 0.003: their prices are the doubles nearest to
  these numbers.
\<close>

definition demoFruits :: "string \<rightharpoonup> Fruit" where
  "demoFruits =
     [''apple'' \<mapsto> \<lparr>fruit_name = ''Apple'', fruit_price = 10,
                     fruit_offerType = BUY_1_GET_1_FREE, inStock = True, stockQuantity = 5\<rparr>,
      ''orange'' \<mapsto> \<lparr>fruit_name = ''Orange'', fruit_price = 20,
                      fruit_offerType = BUY_2_GET_3_FREE, inStock = True, stockQuantity = 100\<rparr>,
      ''plum'' \<mapsto> \<lparr>fruit_name = ''Plum'', fruit_price = 3602879701896397 / 36028797018963968,
                    fruit_offerType = NONE, inStock = True, stockQuantity = 100\<rparr>,
      ''grape'' \<mapsto> \<lparr>fruit_name = ''Grape'', fruit_price = 5021513584518103 / 4503599627370496,
                     fruit_offerType = NONE, inStock = True, stockQuantity = 100\<rparr>,
      ''berry'' \<mapsto> \<lparr>fruit_name = ''Berry'',
                     fruit_price = 3458764513820541 / 1152921504606846976,
                     fruit_offerType = BUY_1_GET_1_FREE, inStock = True, stockQuantity = 100\<rparr>]"

definition demoState :: "bool \<Rightarrow> State" where
  "demoState mem =
     \<lparr>USE_IN_MEMORY = mem, inMemoryCarts = Map.empty, CartModel = Map.empty,
      FruitModel = demoFruits, TransactionHistory = [], authRequests = []\<rparr>"

definition appleLine :: "int \<Rightarrow> int \<Rightarrow> CartItem" where
  "appleLine p f =
     \<lparr>fruitId = ''apple'', name = ''Apple'', price = 10, quantity = p,
      offerType = BUY_1_GET_1_FREE, freeItems = f\<rparr>"

definition orangeLine :: "int \<Rightarrow> int \<Rightarrow> CartItem" where
  "orangeLine p f =
     \<lparr>fruitId = ''orange'', name = ''Orange'', price = 20, quantity = p,
      offerType = BUY_2_GET_3_FREE, freeItems = f\<rparr>"




text \<open>
  A state in which the catalog offer of the apple has changed since the line was added:
  the line still carries the old offer.
\<close>

definition staleState :: State where
  "staleState =
     \<lparr>USE_IN_MEMORY = False, inMemoryCarts = Map.empty,
      CartModel = [''u'' \<mapsto> \<lparr>items = [appleLine 1 1], totalItems = 2, totalPrice = 20,
                               discountAmount = 10, finalPrice = 10\<rparr>],
      FruitModel = demoFruits(''apple'' \<mapsto> \<lparr>fruit_name = ''Apple'', fruit_price = 10,
                     fruit_offerType = BUY_2_GET_3_FREE, inStock = True, stockQuantity = 5\<rparr>),
      TransactionHistory = [], authRequests = []\<rparr>"

text \<open>A state in which the user's cart already holds as many apples as are in stock.\<close>

definition fullState :: State where
  "fullState =
     \<lparr>USE_IN_MEMORY = False, inMemoryCarts = Map.empty,
      CartModel = [''u'' \<mapsto> \<lparr>items = [appleLine 3 2], totalItems = 5, totalPrice = 50,
                               discountAmount = 20, finalPrice = 30\<rparr>],
      FruitModel = demoFruits, TransactionHistory = [], authRequests = []\<rparr>"

text \<open>
  A database state whose catalog finds the same apple under a fruit id written with
  capital hexadecimal digits and under its lower-case form, and the line of that apple.
\<close>

definition hexState :: State where
  "hexState =
     \<lparr>USE_IN_MEMORY = False, inMemoryCarts = Map.empty, CartModel = Map.empty,
      FruitModel =
        [''5F8D0D55B54764421B7156C3'' \<mapsto> \<lparr>fruit_name = ''Apple'', fruit_price = 10,
             fruit_offerType = BUY_1_GET_1_FREE, inStock = True, stockQuantity = 5\<rparr>,
         ''5f8d0d55b54764421b7156c3'' \<mapsto> \<lparr>fruit_name = ''Apple'', fruit_price = 10,
             fruit_offerType = BUY_1_GET_1_FREE, inStock = True, stockQuantity = 5\<rparr>],
      TransactionHistory = [], authRequests = []\<rparr>"

definition hexLine :: "int \<Rightarrow> int \<Rightarrow> CartItem" where
  "hexLine p f =
     \<lparr>fruitId = ''5f8d0d55b54764421b7156c3'', name = ''Apple'', price = 10, quantity = p,
      offerType = BUY_1_GET_1_FREE, freeItems = f\<rparr>"





section \<open>Facts about double-precision rounding\<close>

lemma exponent_up_nonneg: "0 \<le> exponent_up x"
proof (induction x rule: exponent_up.induct)
  case (1 x)
  then show ?case by (subst exponent_up.simps) simp
qed

lemma exponent_up_lower: "1 \<le> x \<Longrightarrow> 2 powi exponent_up x \<le> x"
proof (induction x rule: exponent_up.induct)
  case (1 x)
  show ?case
  proof (cases "x < 2")
    case True
    then show ?thesis using "1.prems" by (subst exponent_up.simps) simp
  next
    case False
    then have "2 powi exponent_up (x / 2) \<le> x / 2" using "1.IH" by simp
    then show ?thesis using False exponent_up_nonneg [of "x / 2"]
      by (subst exponent_up.simps) (simp add: power_int_add)
  qed
qed

lemma exponent_up_upper: "0 < x \<Longrightarrow> x < 2 powi (exponent_up x + 1)"
proof (induction x rule: exponent_up.induct)
  case (1 x)
  show ?case
  proof (cases "x < 2")
    case True
    then show ?thesis by (subst exponent_up.simps) simp
  next
    case False
    then have "x / 2 < 2 powi (exponent_up (x / 2) + 1)" using "1.IH" "1.prems" by simp
    then show ?thesis using False exponent_up_nonneg [of "x / 2"]
      by (subst exponent_up.simps) (simp add: power_int_add)
  qed
qed

lemma exponent_down_nonpos: "exponent_down x \<le> 0"
proof (induction x rule: exponent_down.induct)
  case (1 x)
  then show ?case by (subst exponent_down.simps) fastforce
qed

lemma exponent_down_lower: "0 < x \<Longrightarrow> x < 1 \<Longrightarrow> 2 powi exponent_down x \<le> x"
proof (induction x rule: exponent_down.induct)
  case (1 x)
  show ?case
  proof (cases "1 \<le> 2 * x")
    case True
    then have "exponent_down (2 * x) = 0" by (subst exponent_down.simps) simp
    then have "exponent_down x = - 1" using "1.prems" by (subst exponent_down.simps) simp
    then show ?thesis using True by simp
  next
    case False
    then have "2 powi exponent_down (2 * x) \<le> 2 * x" using "1.IH" "1.prems" by simp
    moreover have "exponent_down x = exponent_down (2 * x) - 1"
      using "1.prems" by (subst exponent_down.simps) simp
    ultimately show ?thesis by (simp add: power_int_diff)
  qed
qed

lemma exponent_down_upper: "0 < x \<Longrightarrow> x < 1 \<Longrightarrow> x < 2 powi (exponent_down x + 1)"
proof (induction x rule: exponent_down.induct)
  case (1 x)
  show ?case
  proof (cases "1 \<le> 2 * x")
    case True
    then have "exponent_down (2 * x) = 0" by (subst exponent_down.simps) simp
    then have "exponent_down x = - 1" using "1.prems" by (subst exponent_down.simps) simp
    then show ?thesis using "1.prems" by simp
  next
    case False
    then have "2 * x < 2 powi (exponent_down (2 * x) + 1)" using "1.IH" "1.prems" by simp
    moreover have "exponent_down x = exponent_down (2 * x) - 1"
      using "1.prems" by (subst exponent_down.simps) simp
    ultimately show ?thesis by (simp add: power_int_diff power_int_add)
  qed
qed

lemma exponent_bounds:
  assumes "0 < x"
  shows "2 powi exponent x \<le> x" and "x < 2 powi (exponent x + 1)"
  using assms exponent_up_lower exponent_up_upper exponent_down_lower exponent_down_upper
  by (auto simp: exponent_def not_le)


lemma exponent_unique:
  assumes "0 < x" and "2 powi e \<le> x" and "x < 2 powi (e + 1)"
  shows "exponent x = e"
proof (rule ccontr)
  assume n: "exponent x \<noteq> e"
  note b = exponent_bounds [OF assms(1)]
  show False
  proof (cases "exponent x < e")
    case True
    then have "(2::rat) powi (exponent x + 1) \<le> 2 powi e"
      by (intro power_int_increasing) auto
    then show False using b(2) assms(2) by linarith
  next
    case False
    then have "e + 1 \<le> exponent x" using n by simp
    then have "(2::rat) powi (e + 1) \<le> 2 powi exponent x"
      by (intro power_int_increasing) auto
    then show False using b(1) assms(3) by linarith
  qed
qed

lemma exponent_less:
  assumes "0 < x" and "x < 2 powi K"
  shows "exponent x < K"
proof (rule ccontr)
  assume "\<not> exponent x < K"
  then have "(2::rat) powi K \<le> 2 powi exponent x"
    by (intro power_int_increasing) auto
  then show False using exponent_bounds(1) [OF assms(1)] assms(2) by linarith
qed

lemma roundTiesToEven_of_int [simp]: "roundTiesToEven (of_int j) = j"
  by (simp add: roundTiesToEven_def)

lemma roundTiesToEven_error: "\<bar>of_int (roundTiesToEven x) - x\<bar> \<le> 1 / 2"
  unfolding roundTiesToEven_def Let_def
  by (auto simp: abs_if) linarith+

text \<open>Evaluating a rounding whose binade is known.\<close>

lemma fl_eval:
  assumes "2 powi e \<le> \<bar>x\<bar>" and "\<bar>x\<bar> < 2 powi (e + 1)" and "- 1022 \<le> e"
  shows "fl x = of_int (roundTiesToEven (x / 2 powi (e - 52))) * 2 powi (e - 52)"
proof -
  have p: "(0::rat) < 2 powi e" by simp
  then have x: "0 < \<bar>x\<bar>" using assms(1) by linarith
  have "exponent \<bar>x\<bar> = e" using x assms(1,2) by (rule exponent_unique)
  then have "ulp_exponent x = e - 52" using assms(3) by (simp add: ulp_exponent_def)
  then show ?thesis using x by (simp add: fl_def)
qed

text \<open>A dyadic number with a significand below \<open>2 ^ 53\<close> is a double.\<close>

lemma fl_dyadic:
  assumes "\<bar>m\<bar> < 2 ^ 53" and "- 1074 \<le> k"
  shows "fl (of_int m * 2 powi k) = of_int m * 2 powi k"
proof (cases "m = 0")
  case True
  then show ?thesis by (simp add: fl_def)
next
  case False
  define x :: rat where "x = of_int m * 2 powi k"
  have nz: "x \<noteq> 0" using False by (simp add: x_def)
  have ax: "\<bar>x\<bar> = of_int \<bar>m\<bar> * 2 powi k" by (simp add: x_def abs_mult)
  have "of_int \<bar>m\<bar> < (2::rat) ^ 53" using assms(1) by (metis of_int_less_numeral_power_cancel_iff)
  then have "\<bar>x\<bar> < 2 ^ 53 * 2 powi k" unfolding ax by (simp add: mult_strict_right_mono)
  also have "\<dots> = 2 powi (k + 53)" by (simp add: power_int_add)
  finally have "exponent \<bar>x\<bar> < k + 53" using nz by (intro exponent_less) auto
  then have u: "ulp_exponent x \<le> k" using assms(2) by (simp add: ulp_exponent_def)
  define d where "d = nat (k - ulp_exponent x)"
  define p :: rat where "p = 2 powi ulp_exponent x"
  have p: "p \<noteq> 0" by (simp add: p_def)
  have "(2::rat) powi k = 2 powi (ulp_exponent x + int d)" using u by (simp add: d_def)
  also have "\<dots> = p * 2 ^ d" by (simp add: power_int_add p_def)
  finally have k: "x = of_int (m * 2 ^ d) * p" by (simp add: x_def)
  then have "x / p = of_int (m * 2 ^ d)" using p by simp
  then have "roundTiesToEven (x / p) = m * 2 ^ d" by (simp only: roundTiesToEven_of_int)
  moreover have "fl x = of_int (roundTiesToEven (x / p)) * p"
    using nz by (simp add: fl_def p_def)
  ultimately have "fl x = x" using k by simp
  then show ?thesis by (simp add: x_def)
qed

lemma fl_of_int: "\<bar>n\<bar> < 2 ^ 53 \<Longrightarrow> fl (of_int n) = of_int n"
  using fl_dyadic [of n 0] by simp

lemma fl_error:
  assumes "x \<noteq> 0"
  shows "\<bar>fl x - x\<bar> \<le> 2 powi ulp_exponent x / 2"
proof -
  define u where "u = ulp_exponent x"
  define y where "y = x / 2 powi u"
  have x: "x = y * 2 powi u" by (simp add: y_def)
  have "fl x - x = (of_int (roundTiesToEven y) - y) * 2 powi u"
    using assms by (simp add: fl_def y_def u_def algebra_simps)
  then have "\<bar>fl x - x\<bar> = \<bar>of_int (roundTiesToEven y) - y\<bar> * 2 powi u"
    by (simp add: abs_mult)
  also have "\<dots> \<le> 1 / 2 * 2 powi u"
    by (intro mult_right_mono roundTiesToEven_error) simp
  finally show ?thesis by (simp add: u_def)
qed

lemma fl_error_below:
  assumes "0 < x" and "x < 2 powi K" and "- 1021 \<le> K"
  shows "\<bar>fl x - x\<bar> \<le> 2 powi (K - 54)"
proof -
  have "exponent \<bar>x\<bar> < K" using assms(1,2) by (intro exponent_less) auto
  then have "ulp_exponent x \<le> K - 53" using assms(3) by (simp add: ulp_exponent_def)
  then have "(2::rat) powi ulp_exponent x \<le> 2 powi (K - 53)"
    by (intro power_int_increasing) auto
  moreover have "(2::rat) powi (K - 53) / 2 = 2 powi (K - 54)"
    by (simp add: power_int_diff)
  ultimately show ?thesis using fl_error [of x] assms(1) by linarith
qed

lemma roundTiesToEven_near: "\<bar>x - of_int n\<bar> < 1 / 2 \<Longrightarrow> roundTiesToEven x = n"
proof -
  assume a: "\<bar>x - of_int n\<bar> < 1 / 2"
  show ?thesis
  proof (cases "of_int n \<le> x")
    case True
    then have "\<lfloor>x\<rfloor> = n" using a by (simp add: floor_eq_iff; linarith)
    then show ?thesis using a True by (simp add: roundTiesToEven_def Let_def)
  next
    case False
    then have f: "\<lfloor>x\<rfloor> = n - 1" using a by (simp add: floor_eq_iff; linarith)
    have "1 / 2 < x - of_int (n - 1)" using a False by simp
    then show ?thesis using f by (simp add: roundTiesToEven_def Let_def)
  qed
qed

lemma roundTiesToEven_tie:
  "x = of_int n + 1 / 2 \<Longrightarrow> roundTiesToEven x = (if even n then n else n + 1)"
proof -
  assume a: "x = of_int n + 1 / 2"
  then have "\<lfloor>x\<rfloor> = n" by (simp add: floor_eq_iff)
  then show ?thesis using a by (simp add: roundTiesToEven_def Let_def)
qed

lemma fl_near:
  assumes "2 powi e \<le> \<bar>x\<bar>" and "\<bar>x\<bar> < 2 powi (e + 1)" and "- 1022 \<le> e"
    and "\<bar>x / 2 powi (e - 52) - of_int n\<bar> < 1 / 2"
  shows "fl x = of_int n * 2 powi (e - 52)"
  using fl_eval [OF assms(1-3)] roundTiesToEven_near [OF assms(4)] by simp

lemma fl_value:
  assumes "2 powi e \<le> \<bar>x\<bar>" and "\<bar>x\<bar> < 2 powi (e + 1)" and "- 1022 \<le> e"
    and "\<bar>x / 2 powi (e - 52) - of_int n\<bar> < 1 / 2" and "y = of_int n * 2 powi (e - 52)"
  shows "fl x = y"
  using fl_near [OF assms(1-4)] assms(5) by simp

lemma fl_tie:
  assumes "2 powi e \<le> \<bar>x\<bar>" and "\<bar>x\<bar> < 2 powi (e + 1)" and "- 1022 \<le> e"
    and "x / 2 powi (e - 52) = of_int n + 1 / 2"
  shows "fl x = of_int (if even n then n else n + 1) * 2 powi (e - 52)"
  using fl_eval [OF assms(1-3)] roundTiesToEven_tie [OF assms(4)] by simp

section \<open>Facts about the resolver arithmetic\<close>

lemma Math_floor_quot: "Math_floor (of_int a / of_int b) = a div b"
  unfolding Math_floor_def by (simp add: floor_divide_of_int_eq)

lemma Math_ceil_quot: "Math_ceil (of_int a / of_int b) = - ((- a) div b)"
  unfolding Math_ceil_def by (simp add: ceiling_divide_eq_div)

lemma js_rem_pos: "0 < a \<Longrightarrow> 0 < b \<Longrightarrow> js_rem a b = a mod b"
  by (simp add: js_rem_def)

text \<open>The resolver with its quotients written as integer divisions.\<close>

lemma calculatePaidAndFree_closed:
  "calculatePaidAndFree q t =
     (if q \<le> 0 then \<lparr>paid = 0, free = 0\<rparr>
      else case t of
        NONE \<Rightarrow> \<lparr>paid = q, free = 0\<rparr>
      | BUY_1_GET_1_FREE \<Rightarrow> \<lparr>paid = q div 2 + q mod 2, free = q - (q div 2 + q mod 2)\<rparr>
      | BUY_2_GET_3_FREE \<Rightarrow>
          (if q \<le> 5 then \<lparr>paid = min q 2, free = q - min q 2\<rparr>
           else \<lparr>paid = 2 - ((5 - q) div 5), free = q - (2 - ((5 - q) div 5))\<rparr>)
      | BUY_3_GET_5_FREE \<Rightarrow>
          (if q \<le> 8 then \<lparr>paid = min q 3, free = q - min q 3\<rparr>
           else \<lparr>paid = 3 - ((8 - q) div 8), free = q - (3 - ((8 - q) div 8))\<rparr>))"
  unfolding calculatePaidAndFree_def Let_def
  by (simp add: Math_floor_quot Math_ceil_quot js_rem_pos split: OfferType.split
           del: of_int_numeral of_int_diff)

lemma generalPolicy_closed:
  "generalPolicy F C q =
     (if q \<le> C then \<lparr>paid = min q F, free = q - min q F\<rparr>
      else \<lparr>paid = F - ((C - q) div C), free = q - (F - ((C - q) div C))\<rparr>)"
  unfolding generalPolicy_def Let_def
  by (simp add: ceiling_divide_eq_div del: of_int_diff)

lemma paid_free_sum:
  "paid (calculatePaidAndFree q t) + free (calculatePaidAndFree q t) = (if q \<le> 0 then 0 else q)"
  by (simp add: calculatePaidAndFree_closed split: OfferType.split)

lemma paid_nonneg: "0 \<le> paid (calculatePaidAndFree q t)"
  by (cases t) (auto simp: calculatePaidAndFree_closed; linarith)+

lemma free_nonneg: "0 \<le> free (calculatePaidAndFree q t)"
  by (cases t) (auto simp: calculatePaidAndFree_closed min_def; linarith)+

lemma ceiling_rat_numeral_quot: "\<lceil>numeral a / numeral b :: rat\<rceil> = - (- numeral a div numeral b)"
  by (metis ceiling_divide_eq_div of_int_numeral)

lemma fl_numeral: "numeral n < (2::int) ^ 53 \<Longrightarrow> fl (numeral n) = numeral n"
  using fl_of_int [of "numeral n"] by simp

lemma fl_zero [simp]: "fl 0 = 0"
  by (simp add: fl_def)

lemma fl_one [simp]: "fl 1 = 1"
  using fl_of_int [of 1] by simp

text \<open>The resolver in double arithmetic.\<close>

lemma fl_int_exact: "\<bar>n\<bar> < 2 ^ 53 \<Longrightarrow> fl_int n = n"
  by (simp add: fl_int_def fl_of_int)

lemma fl_half: "\<bar>n\<bar> < 2 ^ 53 \<Longrightarrow> fl (of_int n / 2) = of_int n / 2"
  using fl_dyadic [of n "- 1"] by (simp add: power_int_minus)

lemma fl_eighth: "\<bar>n\<bar> < 2 ^ 53 \<Longrightarrow> fl (of_int n / 8) = of_int n / 8"
  using fl_dyadic [of n "- 3"] by (simp add: power_int_minus)

lemma ceiling_fl_fifth:
  assumes "0 < n" and "n < 2 ^ 53"
  shows "\<lceil>fl (of_int n / 5)\<rceil> = \<lceil>(of_int n :: rat) / 5\<rceil>"
proof (cases "n mod 5 = 0")
  case True
  then obtain k where k: "n = 5 * k" by (metis mod_eq_0_iff_dvd dvdE)
  then have "\<bar>k\<bar> < 2 ^ 53" using assms by simp
  then show ?thesis using k by (simp add: fl_of_int)
next
  case False
  define k where "k = n div 5"
  define r where "r = n mod 5"
  have n: "n = 5 * k + r" by (simp add: k_def r_def)
  have "0 \<le> r" "r < 5" by (simp_all add: r_def)
  then have r: "1 \<le> r" "r \<le> 4" using False by (simp_all add: r_def)
  define y :: rat where "y = of_int n / 5"
  have y: "y = of_int k + of_int r / 5" by (simp add: y_def n)
  have lo: "of_int k + 1 / 5 \<le> y" and hi: "y \<le> of_int k + 4 / 5"
    using r by (simp_all add: y)
  have k0: "0 \<le> k" using assms(1) by (simp add: k_def)
  have "y < 2 ^ 53 / 5" using assms(2) by (simp add: y_def)
  then have "y < 2 powi 51" by simp
  moreover have "0 < y" using assms(1) by (simp add: y_def)
  ultimately have "\<bar>fl y - y\<bar> \<le> 2 powi (51 - 54)" by (intro fl_error_below) auto
  then have e: "\<bar>fl y - y\<bar> \<le> 1 / 8" by (simp add: power_int_minus)
  have "of_int k < fl y" and "fl y \<le> of_int (k + 1)" using e lo hi by (simp_all; linarith)+
  then have "\<lceil>fl y\<rceil> = k + 1" by (simp add: ceiling_eq_iff)
  moreover have "\<lceil>y\<rceil> = k + 1" using lo hi by (simp add: ceiling_eq_iff; linarith)
  ultimately show ?thesis by (simp add: y_def)
qed

text \<open>Below \<open>2 ^ 53\<close> every operation of the resolver is exact.\<close>

lemma calculatePaidAndFree_double_exact:
  assumes "totalQuantity < 2 ^ 53"
  shows "calculatePaidAndFree_double totalQuantity tier
           = calculatePaidAndFree totalQuantity tier"
proof (cases "totalQuantity \<le> 0")
  case True
  then show ?thesis by (simp add: calculatePaidAndFree_double_def calculatePaidAndFree_def)
next
  case False
  then have q: "0 < totalQuantity" "\<bar>totalQuantity\<bar> < 2 ^ 53" using assms by simp_all
  show ?thesis
  proof (cases tier)
    case NONE
    then show ?thesis by (simp add: calculatePaidAndFree_double_def calculatePaidAndFree_def)
  next
    case BUY_1_GET_1_FREE
    have h: "Math_floor (fl (of_int totalQuantity / 2)) = totalQuantity div 2"
      using q Math_floor_quot [of totalQuantity 2] by (simp add: fl_half)
    have a: "fl_int (totalQuantity div 2) = totalQuantity div 2"
      using q by (intro fl_int_exact) (simp add: abs_if; linarith)
    have b: "fl_int (totalQuantity div 2 + totalQuantity mod 2) = totalQuantity div 2 + totalQuantity mod 2"
      using q by (intro fl_int_exact) (simp add: abs_if; linarith)
    have c: "fl_int (totalQuantity - (totalQuantity div 2 + totalQuantity mod 2))
               = totalQuantity - (totalQuantity div 2 + totalQuantity mod 2)"
      using q by (intro fl_int_exact) (simp add: abs_if; linarith)
    show ?thesis
      using q BUY_1_GET_1_FREE
      by (simp add: calculatePaidAndFree_double_def calculatePaidAndFree_closed Let_def h a b c
            js_rem_pos)
  next
    case BUY_2_GET_3_FREE
    show ?thesis
    proof (cases "totalQuantity \<le> 5")
      case True
      have "fl_int (totalQuantity - min totalQuantity 2) = totalQuantity - min totalQuantity 2"
        using q True by (intro fl_int_exact) simp
      then show ?thesis
        using q True BUY_2_GET_3_FREE
        by (simp add: calculatePaidAndFree_double_def calculatePaidAndFree_def Let_def)
    next
      case False
      define a where "a = totalQuantity - 5"
      have a: "0 < a" "a < 2 ^ 53" using False q by (simp_all add: a_def)
      have fa: "fl_int a = a" using a by (intro fl_int_exact) simp
      have c: "Math_ceil (fl (of_int a / 5)) = Math_ceil (of_int a / 5)"
        using a by (simp add: Math_ceil_def ceiling_fl_fifth)
      define p where "p = 2 + Math_ceil (of_int a / 5)"
      have "Math_ceil (of_int a / 5) = - ((- a) div 5)"
        using Math_ceil_quot [of a 5] by simp
      then have pb: "0 \<le> p" "p \<le> totalQuantity" using a by (simp_all add: p_def a_def)
      have fp: "fl_int p = p" using pb q by (intro fl_int_exact) simp
      have ff: "fl_int (totalQuantity - p) = totalQuantity - p"
        using pb q by (intro fl_int_exact) simp
      show ?thesis
        using q False BUY_2_GET_3_FREE fa c fp ff
        by (simp add: calculatePaidAndFree_double_def calculatePaidAndFree_def Let_def a_def p_def)
    qed
  next
    case BUY_3_GET_5_FREE
    show ?thesis
    proof (cases "totalQuantity \<le> 8")
      case True
      have "fl_int (totalQuantity - min totalQuantity 3) = totalQuantity - min totalQuantity 3"
        using q True by (intro fl_int_exact) simp
      then show ?thesis
        using q True BUY_3_GET_5_FREE
        by (simp add: calculatePaidAndFree_double_def calculatePaidAndFree_def Let_def)
    next
      case False
      define a where "a = totalQuantity - 8"
      have a: "0 < a" "a < 2 ^ 53" using False q by (simp_all add: a_def)
      have fa: "fl_int a = a" using a by (intro fl_int_exact) simp
      have c: "Math_ceil (fl (of_int a / 8)) = Math_ceil (of_int a / 8)"
        using a by (simp add: fl_eighth)
      define p where "p = 3 + Math_ceil (of_int a / 8)"
      have "Math_ceil (of_int a / 8) = - ((- a) div 8)"
        using Math_ceil_quot [of a 8] by simp
      then have pb: "0 \<le> p" "p \<le> totalQuantity" using a by (simp_all add: p_def a_def)
      have fp: "fl_int p = p" using pb q by (intro fl_int_exact) simp
      have ff: "fl_int (totalQuantity - p) = totalQuantity - p"
        using pb q by (intro fl_int_exact) simp
      show ?thesis
        using q False BUY_3_GET_5_FREE fa c fp ff
        by (simp add: calculatePaidAndFree_double_def calculatePaidAndFree_def Let_def a_def p_def)
    qed
  qed
qed

section \<open>Facts about the cart totals\<close>

lemma floor_rat_numeral_quot [simp]: "\<lfloor>numeral a / numeral b :: rat\<rfloor> = numeral a div numeral b"
  by (metis floor_divide_of_int_eq of_int_numeral)


lemma floor_rat_one_quot [simp]: "\<lfloor>1 / numeral b :: rat\<rfloor> = 1 div numeral b"
  by (metis floor_divide_of_int_eq of_int_1 of_int_numeral)






























section \<open>Facts about the cart operations\<close>

lemma CartItem_copy:
  "\<lparr>fruitId = fruitId item, name = name item, price = price item, quantity = quantity item,
    offerType = offerType item, freeItems = freeItems item\<rparr> = item"
  by (cases item) simp

lemma formatCartResponse_Some [simp]: "formatCartResponse (Some cart) = cart"
  by (cases cart) (simp add: formatCartResponse_def CartItem_copy)

lemma findIndex_ge: "- 1 \<le> findIndex P xs"
  by (induction xs) (auto simp: Let_def)

lemma findIndex_range: "findIndex P xs \<noteq> - 1 \<Longrightarrow> 0 \<le> findIndex P xs \<and> findIndex P xs < int (length xs)"
proof (induction xs)
  case Nil
  then show ?case by simp
next
  case (Cons x xs)
  then show ?case using findIndex_ge [of P xs] by (auto simp: Let_def split: if_splits)
qed

lemma findIndex_none: "findIndex P xs = - 1 \<longleftrightarrow> (\<forall>x\<in>set xs. \<not> P x)"
proof (induction xs)
  case Nil
  then show ?case by simp
next
  case (Cons x xs)
  then show ?case using findIndex_ge [of P xs] by (auto simp: Let_def split: if_splits)
qed

lemma findIndex_found: "findIndex P xs \<noteq> - 1 \<Longrightarrow> P (xs ! nat (findIndex P xs))"
proof (induction xs)
  case Nil
  then show ?case by simp
next
  case (Cons x xs)
  then show ?case using findIndex_ge [of P xs]
    by (auto simp: Let_def nat_add_distrib split: if_splits)
qed

lemma findIndex_first: "findIndex P xs \<noteq> - 1 \<Longrightarrow> j < nat (findIndex P xs) \<Longrightarrow> \<not> P (xs ! j)"
proof (induction xs arbitrary: j)
  case Nil
  then show ?case by simp
next
  case (Cons x xs)
  show ?case
  proof (cases "P x")
    case True
    with Cons.prems show ?thesis by simp
  next
    case False
    have r: "findIndex P xs \<noteq> - 1" using Cons.prems(1) False by (auto simp: Let_def split: if_splits)
    have e: "findIndex P (x # xs) = findIndex P xs + 1" using False r by (simp add: Let_def)
    have ge: "0 \<le> findIndex P xs" using findIndex_range [OF r] by auto
    show ?thesis
    proof (cases j)
      case 0
      then show ?thesis using False by simp
    next
      case (Suc k)
      then have "k < nat (findIndex P xs)" using Cons.prems(2) e ge by (simp add: nat_add_distrib)
      then show ?thesis using Cons.IH [OF r] Suc by simp
    qed
  qed
qed

lemma findIndex_append_new:
  "findIndex P xs = - 1 \<Longrightarrow> P x \<Longrightarrow> findIndex P (xs @ [x]) = int (length xs)"
proof (induction xs)
  case Nil
  then show ?case by simp
next
  case (Cons y ys)
  then show ?case using findIndex_ge [of P ys]
    by (auto simp: Let_def split: if_splits)
qed

lemma formatCartResponse_None [simp]: "formatCartResponse None = emptyCart"
  by (simp add: formatCartResponse_def)

lemma getCart_flag [simp]: "USE_IN_MEMORY (fst (getCart s uid)) = USE_IN_MEMORY s"
  by (simp add: getCart_def getInMemoryCart_def split: option.split)

lemma addToCart_result:
  assumes "FruitModel s (dto_fruitId itemData) = Some fruit"
    and "inStock fruit" and "dto_quantity itemData \<le> stockQuantity fruit"
  shows "addToCart s uid itemData =
           (saveCart s uid
              (recalculated (snd (getCart s uid))
                 (addToCart_items (newLineFruitId s (dto_fruitId itemData))
                    (items (snd (getCart s uid))) itemData fruit)),
            Inr (recalculated (snd (getCart s uid))
                   (addToCart_items (newLineFruitId s (dto_fruitId itemData))
                      (items (snd (getCart s uid))) itemData fruit)))"
  using assms
  by (cases "USE_IN_MEMORY s"; cases "inMemoryCarts s uid"; cases "CartModel s uid";
      simp add: addToCart_def getCart_def getInMemoryCart_def saveCart_def recalculated_def
                Let_def emptyCart_def newLineFruitId_def)






lemma storedCart_saveCart [simp]: "storedCart (saveCart s uid cart) uid = Some cart"
  by (simp add: storedCart_def saveCart_def)

lemma recalculated_fields:
  "items (recalculated cart its) = its"
  "totalItems (recalculated cart its) = totals_totalItems (calculateCartTotals its)"
  "totalPrice (recalculated cart its) = totals_totalPrice (calculateCartTotals its)"
  "discountAmount (recalculated cart its) = totals_discountAmount (calculateCartTotals its)"
  "finalPrice (recalculated cart its) = totals_finalPrice (calculateCartTotals its)"
  by (simp_all add: recalculated_def assignTotals_def)


lemma snd_getCart_saveCart [simp]: "snd (getCart (saveCart s uid cart) uid) = cart"
  by (simp add: getCart_def saveCart_def getInMemoryCart_def)

lemma fst_getCart_saveCart [simp]: "fst (getCart (saveCart s uid cart) uid) = saveCart s uid cart"
  by (simp add: getCart_def saveCart_def getInMemoryCart_def)

lemma FruitModel_saveCart [simp]: "FruitModel (saveCart s uid cart) = FruitModel s"
  by (simp add: saveCart_def)

lemma USE_IN_MEMORY_saveCart [simp]: "USE_IN_MEMORY (saveCart s uid cart) = USE_IN_MEMORY s"
  by (simp add: saveCart_def)

lemma saveCart_saveCart [simp]: "saveCart (saveCart s uid cart) uid cart' = saveCart s uid cart'"
  by (simp add: saveCart_def)

lemma currentCart_saveCart [simp]: "currentCart (saveCart s uid cart) uid = cart"
  by (simp add: currentCart_def)

lemma currentCart_FruitModel_update [simp]:
  "currentCart (s\<lparr>FruitModel := fm\<rparr>) uid = currentCart s uid"
  by (simp add: currentCart_def getCart_def getInMemoryCart_def split: option.split)

lemma addToCart_current:
  assumes "FruitModel s (dto_fruitId itemData) = Some fruit"
    and "inStock fruit" and "dto_quantity itemData \<le> stockQuantity fruit"
  shows "addToCart s uid itemData =
           (saveCart s uid
              (recalculated (currentCart s uid)
                 (addToCart_items (newLineFruitId s (dto_fruitId itemData))
                    (items (currentCart s uid)) itemData fruit)),
            Inr (recalculated (currentCart s uid)
                   (addToCart_items (newLineFruitId s (dto_fruitId itemData))
                      (items (currentCart s uid)) itemData fruit)))"
  unfolding currentCart_def using assms by (rule addToCart_result)

lemma addToCart_items_existing:
  assumes "findIndex (\<lambda>item. fruitId item = dto_fruitId itemData) its = i" and "i \<noteq> - 1"
  shows "addToCart_items newFruitId its itemData fruit =
           its[nat i := withSplit (its ! nat i)
                          (calculatePaidAndFree
                             (quantity (its ! nat i) + freeItems (its ! nat i) + dto_quantity itemData)
                             (fruit_offerType fruit))]"
  using assms by (simp add: addToCart_items_def Let_def withSplit_def)

lemma addToCart_items_new:
  assumes "findIndex (\<lambda>item. fruitId item = dto_fruitId itemData) its = - 1"
  shows "addToCart_items newFruitId its itemData fruit =
           its @ [\<lparr>fruitId = newFruitId, name = fruit_name fruit,
                    price = fruit_price fruit,
                    quantity = paid (calculatePaidAndFree (dto_quantity itemData) (fruit_offerType fruit)),
                    offerType = fruit_offerType fruit,
                    freeItems = free (calculatePaidAndFree (dto_quantity itemData) (fruit_offerType fruit))\<rparr>]"
  using assms by (simp add: addToCart_items_def Let_def)

text \<open>The text of an object id is its own object id text.\<close>

lemma hexToLowerCase_canonical: "c \<in> set ''0123456789abcdef'' \<Longrightarrow> hexToLowerCase c = c"
  by (auto simp: hexToLowerCase_def)

lemma ObjectId_toString_canonical: "canonicalObjectId fid \<Longrightarrow> ObjectId_toString fid = fid"
  unfolding canonicalObjectId_def ObjectId_toString_def
  by (intro map_idI) (auto simp: list_all_iff hexToLowerCase_canonical simp del: set_simps)

lemma newLineFruitId_canonical:
  "USE_IN_MEMORY s \<or> canonicalObjectId fid \<Longrightarrow> newLineFruitId s fid = fid"
  by (auto simp: newLineFruitId_def ObjectId_toString_canonical)



lemma currentCart_fst_getCart [simp]: "currentCart (fst (getCart s uid)) u = currentCart s u"
  by (simp add: currentCart_def getCart_def getInMemoryCart_def split: option.split)

lemma fst_getCart_rest [simp]: "(fst (getCart s uid))\<lparr>inMemoryCarts := inMemoryCarts s\<rparr> = s"
  by (simp add: getCart_def getInMemoryCart_def split: option.split)





section \<open>Facts about checkout\<close>

lemma fst_loadCartData: "fst (loadCartData s uid) = fst (getCart s uid)"
  by (simp add: loadCartData_def getCart_def split: option.split prod.split)

lemma snd_loadCartData:
  "snd (loadCartData s uid) =
     (if USE_IN_MEMORY s then Inr (currentCart s uid)
      else if items (currentCart s uid) = [] then Inl (Error ''Cart is empty'')
      else Inr (recalculated (currentCart s uid) (items (currentCart s uid))))"
  by (cases "CartModel s uid")
     (simp_all add: loadCartData_def currentCart_def getCart_def recalculated_def emptyCart_def
                split: prod.split)

lemma loadCartData_items:
  "snd (loadCartData s uid) = Inr cartData \<Longrightarrow> items cartData = items (currentCart s uid)"
  by (auto simp: snd_loadCartData recalculated_fields split: if_splits)

lemma fst_getCart_fields [simp]:
  "USE_IN_MEMORY (fst (getCart s uid)) = USE_IN_MEMORY s"
  "CartModel (fst (getCart s uid)) = CartModel s"
  "FruitModel (fst (getCart s uid)) = FruitModel s"
  "TransactionHistory (fst (getCart s uid)) = TransactionHistory s"
  "authRequests (fst (getCart s uid)) = authRequests s"
  by (simp_all add: getCart_def getInMemoryCart_def split: option.split)

lemma fst_getCart_nonempty: "items (currentCart s uid) \<noteq> [] \<Longrightarrow> fst (getCart s uid) = s"
  by (auto simp: currentCart_def getCart_def getInMemoryCart_def emptyCart_def split: option.split)

lemma walletPayment_fields [simp]:
  "USE_IN_MEMORY (fst (walletPayment s auth c)) = USE_IN_MEMORY s"
  "inMemoryCarts (fst (walletPayment s auth c)) = inMemoryCarts s"
  "CartModel (fst (walletPayment s auth c)) = CartModel s"
  "FruitModel (fst (walletPayment s auth c)) = FruitModel s"
  "TransactionHistory (fst (walletPayment s auth c)) = TransactionHistory s"
  by (simp_all add: walletPayment_def Let_def split: sum.split option.split)



section \<open>Facts about the example states\<close>

lemma demoState_simps [simp]:
  "FruitModel (demoState mem) = demoFruits"
  "snd (getCart (demoState mem) uid) = emptyCart"
  "USE_IN_MEMORY (demoState mem) = mem"
  by (simp_all add: demoState_def getCart_def getInMemoryCart_def)

lemma demoFruits_simps [simp]:
  "demoFruits ''apple'' = Some \<lparr>fruit_name = ''Apple'', fruit_price = 10,
                     fruit_offerType = BUY_1_GET_1_FREE, inStock = True, stockQuantity = 5\<rparr>"
  "demoFruits ''orange'' = Some \<lparr>fruit_name = ''Orange'', fruit_price = 20,
                      fruit_offerType = BUY_2_GET_3_FREE, inStock = True, stockQuantity = 100\<rparr>"
  "demoFruits ''plum'' = Some \<lparr>fruit_name = ''Plum'',
                     fruit_price = 3602879701896397 / 36028797018963968,
                     fruit_offerType = NONE, inStock = True, stockQuantity = 100\<rparr>"
  "demoFruits ''grape'' = Some \<lparr>fruit_name = ''Grape'',
                     fruit_price = 5021513584518103 / 4503599627370496,
                     fruit_offerType = NONE, inStock = True, stockQuantity = 100\<rparr>"
  "demoFruits ''berry'' = Some \<lparr>fruit_name = ''Berry'',
                     fruit_price = 3458764513820541 / 1152921504606846976,
                     fruit_offerType = BUY_1_GET_1_FREE, inStock = True, stockQuantity = 100\<rparr>"
  by (simp_all add: demoFruits_def)

lemma currentCart_demoState [simp]: "currentCart (demoState mem) uid = emptyCart"
  by (simp add: currentCart_def)

lemmas cart_eval = newLineFruitId_def addToCart_items_def updateCartItem_items_def recalculated_def assignTotals_def
  calculateCartTotals_def calculateDiscount_def fl_int_def fl_numeral Math_round_def emptyCart_def
  calculatePaidAndFree_closed Let_def splice_def appleLine_def orangeLine_def

lemma staleState_simps [simp]:
  "FruitModel staleState ''apple'' = Some \<lparr>fruit_name = ''Apple'', fruit_price = 10,
                     fruit_offerType = BUY_2_GET_3_FREE, inStock = True, stockQuantity = 5\<rparr>"
  "currentCart staleState ''u'' = \<lparr>items = [appleLine 1 1], totalItems = 2, totalPrice = 20,
                               discountAmount = 10, finalPrice = 10\<rparr>"
  by (simp_all add: staleState_def currentCart_def getCart_def)

lemma fullState_simps [simp]:
  "FruitModel fullState ''apple'' = Some \<lparr>fruit_name = ''Apple'', fruit_price = 10,
                     fruit_offerType = BUY_1_GET_1_FREE, inStock = True, stockQuantity = 5\<rparr>"
  "currentCart fullState ''u'' = \<lparr>items = [appleLine 3 2], totalItems = 5, totalPrice = 50,
                               discountAmount = 20, finalPrice = 30\<rparr>"
  by (simp_all add: fullState_def currentCart_def getCart_def)

lemma demoState_fields [simp]:
  "TransactionHistory (demoState mem) = []"
  "authRequests (demoState mem) = []"
  by (simp_all add: demoState_def)

lemma fullState_fields [simp]:
  "USE_IN_MEMORY fullState = False"
  "TransactionHistory fullState = []"
  by (simp_all add: fullState_def)

lemma hexState_simps [simp]:
  "USE_IN_MEMORY hexState = False"
  "FruitModel hexState ''5F8D0D55B54764421B7156C3''
     = Some \<lparr>fruit_name = ''Apple'', fruit_price = 10, fruit_offerType = BUY_1_GET_1_FREE,
             inStock = True, stockQuantity = 5\<rparr>"
  "FruitModel hexState ''5f8d0d55b54764421b7156c3''
     = Some \<lparr>fruit_name = ''Apple'', fruit_price = 10, fruit_offerType = BUY_1_GET_1_FREE,
             inStock = True, stockQuantity = 5\<rparr>"
  "currentCart hexState uid = emptyCart"
  by (simp_all add: hexState_def currentCart_def getCart_def)

lemma ObjectId_toString_upper:
  "ObjectId_toString ''5F8D0D55B54764421B7156C3'' = ''5f8d0d55b54764421b7156c3''"
  by code_simp

lemma loadCartData_fullState:
  "loadCartData fullState ''u''
     = (fullState, Inr \<lparr>items = [appleLine 3 2], totalItems = 5, totalPrice = 50,
                         discountAmount = 20, finalPrice = 30\<rparr>)"
proof -
  have "fst (loadCartData fullState ''u'') = fullState"
    by (simp add: fst_loadCartData fst_getCart_nonempty)
  moreover have "snd (loadCartData fullState ''u'')
     = Inr \<lparr>items = [appleLine 3 2], totalItems = 5, totalPrice = 50,
             discountAmount = 20, finalPrice = 30\<rparr>"
    by (simp add: snd_loadCartData cart_eval)
  ultimately show ?thesis by (simp add: prod_eq_iff)
qed

section \<open>The resolver contract\<close>

text \<open>
  Claim C1, as amended. For every offer tier and every total quantity from 0 up to
  \<open>2 ^ 53 - 1\<close>, the whole numbers on which double arithmetic is exact, the resolver
  returns a paid count and a free count that add up to the total quantity, both
  non-negative; for a total quantity of zero or less it returns paid 0 and free 0.
\<close>

theorem calculatePaidAndFree_double_contract:
  "(0 \<le> totalQuantity \<and> totalQuantity < 2 ^ 53 \<longrightarrow>
      paid (calculatePaidAndFree_double totalQuantity tier)
        + free (calculatePaidAndFree_double totalQuantity tier) = totalQuantity
      \<and> 0 \<le> paid (calculatePaidAndFree_double totalQuantity tier)
      \<and> 0 \<le> free (calculatePaidAndFree_double totalQuantity tier))
   \<and> (totalQuantity \<le> 0 \<longrightarrow>
        calculatePaidAndFree_double totalQuantity tier = \<lparr>paid = 0, free = 0\<rparr>)"
proof -
  have "paid (calculatePaidAndFree_double totalQuantity tier)
        + free (calculatePaidAndFree_double totalQuantity tier) = totalQuantity
      \<and> 0 \<le> paid (calculatePaidAndFree_double totalQuantity tier)
      \<and> 0 \<le> free (calculatePaidAndFree_double totalQuantity tier)"
    if "0 \<le> totalQuantity \<and> totalQuantity < 2 ^ 53"
  proof -
    have e: "calculatePaidAndFree_double totalQuantity tier = calculatePaidAndFree totalQuantity tier"
      using that by (simp add: calculatePaidAndFree_double_exact)
    show ?thesis
      unfolding e using that paid_nonneg free_nonneg by (simp add: paid_free_sum)
  qed
  moreover have "calculatePaidAndFree_double totalQuantity tier = \<lparr>paid = 0, free = 0\<rparr>"
    if "totalQuantity \<le> 0"
    using that by (simp add: calculatePaidAndFree_double_def)
  ultimately show ?thesis by blast
qed

theorem calculatePaidAndFree_double_contract_witness:
  "(0::int) \<le> 7 \<and> (7::int) < 2 ^ 53
   \<and> calculatePaidAndFree_double 7 BUY_2_GET_3_FREE = \<lparr>paid = 3, free = 4\<rparr>
   \<and> paid (calculatePaidAndFree_double 7 BUY_2_GET_3_FREE)
       + free (calculatePaidAndFree_double 7 BUY_2_GET_3_FREE) = 7
   \<and> (0::int) \<le> 9007199254740991 \<and> (9007199254740991::int) < 2 ^ 53
   \<and> paid (calculatePaidAndFree_double 9007199254740991 BUY_3_GET_5_FREE)
       + free (calculatePaidAndFree_double 9007199254740991 BUY_3_GET_5_FREE) = 9007199254740991
   \<and> (- 2::int) \<le> 0
   \<and> calculatePaidAndFree_double (- 2) BUY_3_GET_5_FREE = \<lparr>paid = 0, free = 0\<rparr>"
proof -
  have "calculatePaidAndFree_double 7 BUY_2_GET_3_FREE = \<lparr>paid = 3, free = 4\<rparr>"
    by (simp add: calculatePaidAndFree_double_exact calculatePaidAndFree_closed)
  then show ?thesis
    using calculatePaidAndFree_double_contract [of 7 BUY_2_GET_3_FREE]
          calculatePaidAndFree_double_contract [of 9007199254740991 BUY_3_GET_5_FREE]
          calculatePaidAndFree_double_contract [of "- 2" BUY_3_GET_5_FREE]
    by simp
qed

text \<open>
  The claim as it was stated, for every non-negative whole number, fails above
  \<open>2 ^ 53\<close>. The total quantity 10293942005418280 is a double; under
  \<open>BUY_3_GET_5_FREE\<close> the paid count is 1286742750677287, and the difference
  9007199254740993 is not a double: the free count is rounded to \<open>2 ^ 53\<close>, and
  the two counts add up to one less than the total quantity. The total quantity
  886337164459431296 is a double too; under \<open>BUY_2_GET_3_FREE\<close> the quotient by 5,
  the sum with 2 and the final difference are each rounded, and the counts returned add
  up to 886337164459431360.
\<close>

theorem calculatePaidAndFree_contract_counterexample:
  "(0::int) \<le> 10293942005418280
   \<and> fl (of_int 10293942005418280) = of_int 10293942005418280
   \<and> calculatePaidAndFree_double 10293942005418280 BUY_3_GET_5_FREE
       = \<lparr>paid = 1286742750677287, free = 9007199254740992\<rparr>
   \<and> paid (calculatePaidAndFree_double 10293942005418280 BUY_3_GET_5_FREE)
       + free (calculatePaidAndFree_double 10293942005418280 BUY_3_GET_5_FREE)
       \<noteq> 10293942005418280
   \<and> (0::int) \<le> 886337164459431296
   \<and> fl (of_int 886337164459431296) = of_int 886337164459431296
   \<and> calculatePaidAndFree_double 886337164459431296 BUY_2_GET_3_FREE
       = \<lparr>paid = 177267432891886272, free = 709069731567545088\<rparr>
   \<and> paid (calculatePaidAndFree_double 886337164459431296 BUY_2_GET_3_FREE)
       + free (calculatePaidAndFree_double 886337164459431296 BUY_2_GET_3_FREE)
       \<noteq> 886337164459431296"
proof -
  have h0: "fl 10293942005418280 = 10293942005418280"
    by (rule fl_value [of 53 _ 5146971002709140]) (simp_all add: power_int_minus)
  have h1: "fl 10293942005418272 = 10293942005418272"
    by (rule fl_value [of 53 _ 5146971002709136]) (simp_all add: power_int_minus)
  have h4: "fl 9007199254740993 = 9007199254740992"
    using fl_tie [of 53 9007199254740993 4503599627370496] by simp
  have h: "calculatePaidAndFree_double 10293942005418280 BUY_3_GET_5_FREE
          = \<lparr>paid = 1286742750677287, free = 9007199254740992\<rparr>"
    by (simp add: calculatePaidAndFree_double_def fl_int_def Math_ceil_def h1 h4 fl_numeral Let_def)
  have a: "fl 886337164459431291 = 886337164459431296"
    using fl_near [of 59 886337164459431291 6924509097339307] by simp
  have b: "fl (886337164459431296 / 5) = 177267432891886272"
    using fl_near [of 57 "886337164459431296 / 5" 5539607277871446] by simp
  have c: "fl 177267432891886274 = 177267432891886272"
    using fl_near [of 57 177267432891886274 5539607277871446] by simp
  have d: "fl 709069731567545024 = 709069731567545088"
    using fl_tie [of 59 709069731567545024 5539607277871445] by simp
  have e: "fl 886337164459431296 = 886337164459431296"
    using fl_dyadic [of 6924509097339307 7] by simp
  have "calculatePaidAndFree_double 886337164459431296 BUY_2_GET_3_FREE
          = \<lparr>paid = 177267432891886272, free = 709069731567545088\<rparr>"
    by (simp add: calculatePaidAndFree_double_def fl_int_def Math_ceil_def a b c d)
  then show ?thesis using e h h0 by simp
qed

section \<open>The worked table and the general policy\<close>

text \<open>
  Claim C2, as amended. The resolver returns every split of the worked table, and for
  the tiers \<open>BUY_2_GET_3_FREE\<close> (first paid 2, first cycle 5) and \<open>BUY_3_GET_5_FREE\<close>
  (first paid 3, first cycle 8) it agrees with the general policy on every total
  quantity from 0 up to \<open>2 ^ 53 - 1\<close>.
\<close>

theorem worked_table_and_general_policy:
  assumes "0 \<le> totalQuantity" and "totalQuantity < 2 ^ 53"
  shows "calculatePaidAndFree_double 1 BUY_1_GET_1_FREE = \<lparr>paid = 1, free = 0\<rparr>
       \<and> calculatePaidAndFree_double 2 BUY_1_GET_1_FREE = \<lparr>paid = 1, free = 1\<rparr>
       \<and> calculatePaidAndFree_double 3 BUY_1_GET_1_FREE = \<lparr>paid = 2, free = 1\<rparr>
       \<and> calculatePaidAndFree_double 4 BUY_1_GET_1_FREE = \<lparr>paid = 2, free = 2\<rparr>
       \<and> calculatePaidAndFree_double 5 BUY_1_GET_1_FREE = \<lparr>paid = 3, free = 2\<rparr>
       \<and> calculatePaidAndFree_double 1 BUY_2_GET_3_FREE = \<lparr>paid = 1, free = 0\<rparr>
       \<and> calculatePaidAndFree_double 2 BUY_2_GET_3_FREE = \<lparr>paid = 2, free = 0\<rparr>
       \<and> (\<forall>qty\<in>{3..5}. calculatePaidAndFree_double qty BUY_2_GET_3_FREE = \<lparr>paid = 2, free = qty - 2\<rparr>)
       \<and> calculatePaidAndFree_double 6 BUY_2_GET_3_FREE = \<lparr>paid = 3, free = 3\<rparr>
       \<and> (\<forall>qty\<in>{7..10}. calculatePaidAndFree_double qty BUY_2_GET_3_FREE = \<lparr>paid = 3, free = qty - 3\<rparr>)
       \<and> calculatePaidAndFree_double 11 BUY_2_GET_3_FREE = \<lparr>paid = 4, free = 7\<rparr>
       \<and> (\<forall>qty\<in>{1..3}. calculatePaidAndFree_double qty BUY_3_GET_5_FREE = \<lparr>paid = qty, free = 0\<rparr>)
       \<and> (\<forall>qty\<in>{4..8}. calculatePaidAndFree_double qty BUY_3_GET_5_FREE = \<lparr>paid = 3, free = qty - 3\<rparr>)
       \<and> (\<forall>qty\<in>{9..16}. calculatePaidAndFree_double qty BUY_3_GET_5_FREE = \<lparr>paid = 4, free = qty - 4\<rparr>)
       \<and> (\<forall>qty\<in>{17..24}. calculatePaidAndFree_double qty BUY_3_GET_5_FREE = \<lparr>paid = 5, free = qty - 5\<rparr>)
       \<and> calculatePaidAndFree_double totalQuantity BUY_2_GET_3_FREE = generalPolicy 2 5 totalQuantity
       \<and> calculatePaidAndFree_double totalQuantity BUY_3_GET_5_FREE = generalPolicy 3 8 totalQuantity"
proof -
  have x: "calculatePaidAndFree_double q t = calculatePaidAndFree q t" if "q \<le> 24" for q t
    using that by (intro calculatePaidAndFree_double_exact) simp
  have t1: "\<forall>qty\<in>{3..5}. calculatePaidAndFree_double qty BUY_2_GET_3_FREE = \<lparr>paid = 2, free = qty - 2\<rparr>"
    by (simp add: x calculatePaidAndFree_closed)
  have t2: "\<forall>qty\<in>{7..10}. calculatePaidAndFree_double qty BUY_2_GET_3_FREE = \<lparr>paid = 3, free = qty - 3\<rparr>"
    by (auto simp: x calculatePaidAndFree_closed)
  have t3: "\<forall>qty\<in>{1..3}. calculatePaidAndFree_double qty BUY_3_GET_5_FREE = \<lparr>paid = qty, free = 0\<rparr>"
    by (simp add: x calculatePaidAndFree_closed)
  have t4: "\<forall>qty\<in>{4..8}. calculatePaidAndFree_double qty BUY_3_GET_5_FREE = \<lparr>paid = 3, free = qty - 3\<rparr>"
    by (simp add: x calculatePaidAndFree_closed)
  have t5: "\<forall>qty\<in>{9..16}. calculatePaidAndFree_double qty BUY_3_GET_5_FREE = \<lparr>paid = 4, free = qty - 4\<rparr>"
    by (auto simp: x calculatePaidAndFree_closed)
  have t6: "\<forall>qty\<in>{17..24}. calculatePaidAndFree_double qty BUY_3_GET_5_FREE = \<lparr>paid = 5, free = qty - 5\<rparr>"
    by (auto simp: x calculatePaidAndFree_closed)
  have p1: "calculatePaidAndFree_double totalQuantity BUY_2_GET_3_FREE = generalPolicy 2 5 totalQuantity"
    using assms by (simp add: calculatePaidAndFree_double_exact calculatePaidAndFree_closed generalPolicy_closed)
  have p2: "calculatePaidAndFree_double totalQuantity BUY_3_GET_5_FREE = generalPolicy 3 8 totalQuantity"
    using assms by (simp add: calculatePaidAndFree_double_exact calculatePaidAndFree_closed generalPolicy_closed)
  show ?thesis
    using t1 t2 t3 t4 t5 t6 p1 p2 by (simp add: x calculatePaidAndFree_closed)
qed

theorem worked_table_and_general_policy_witness:
  "(0::int) \<le> 9 \<and> (9::int) < 2 ^ 53
   \<and> (4::int) \<in> {3..5} \<and> calculatePaidAndFree_double 4 BUY_2_GET_3_FREE = \<lparr>paid = 2, free = 2\<rparr>
   \<and> (9::int) \<in> {7..10} \<and> calculatePaidAndFree_double 9 BUY_2_GET_3_FREE = \<lparr>paid = 3, free = 6\<rparr>
   \<and> (2::int) \<in> {1..3} \<and> calculatePaidAndFree_double 2 BUY_3_GET_5_FREE = \<lparr>paid = 2, free = 0\<rparr>
   \<and> (8::int) \<in> {4..8} \<and> calculatePaidAndFree_double 8 BUY_3_GET_5_FREE = \<lparr>paid = 3, free = 5\<rparr>
   \<and> (9::int) \<in> {9..16} \<and> calculatePaidAndFree_double 9 BUY_3_GET_5_FREE = \<lparr>paid = 4, free = 5\<rparr>
   \<and> (24::int) \<in> {17..24} \<and> calculatePaidAndFree_double 24 BUY_3_GET_5_FREE = \<lparr>paid = 5, free = 19\<rparr>
   \<and> generalPolicy 2 5 9 = \<lparr>paid = 3, free = 6\<rparr>
   \<and> generalPolicy 3 8 9 = \<lparr>paid = 4, free = 5\<rparr>"
  using worked_table_and_general_policy [of 9]
  by (simp add: generalPolicy_closed)

text \<open>
  The claim as it was stated, with the policy asserted for every total quantity, fails
  right above \<open>2 ^ 53\<close>. At the total quantity \<open>2 ^ 53 + 8\<close>, a double, under
  \<open>BUY_2_GET_3_FREE\<close> the difference 9007199254740995 is rounded up to
  9007199254740996 and its fifth to 1801439850948199.25, so the resolver answers paid
  1801439850948202 where the policy gives 1801439850948201. In the same way at
  \<open>10 ^ 16\<close> the resolver answers paid 2000000000000002 where the policy gives
  2000000000000001.
\<close>

theorem general_policy_counterexample:
  "fl (of_int 9007199254741000) = of_int 9007199254741000
   \<and> calculatePaidAndFree_double 9007199254741000 BUY_2_GET_3_FREE
       = \<lparr>paid = 1801439850948202, free = 7205759403792798\<rparr>
   \<and> generalPolicy 2 5 9007199254741000 = \<lparr>paid = 1801439850948201, free = 7205759403792799\<rparr>
   \<and> calculatePaidAndFree_double 9007199254741000 BUY_2_GET_3_FREE
       \<noteq> generalPolicy 2 5 9007199254741000
   \<and> fl (of_int 10000000000000000) = of_int 10000000000000000
   \<and> calculatePaidAndFree_double 10000000000000000 BUY_2_GET_3_FREE
       = \<lparr>paid = 2000000000000002, free = 7999999999999998\<rparr>
   \<and> generalPolicy 2 5 10000000000000000 = \<lparr>paid = 2000000000000001, free = 7999999999999999\<rparr>
   \<and> calculatePaidAndFree_double 10000000000000000 BUY_2_GET_3_FREE
       \<noteq> generalPolicy 2 5 10000000000000000"
proof -
  have k0: "fl 9007199254741000 = 9007199254741000"
    by (rule fl_value [of 53 _ 4503599627370500]) (simp_all add: power_int_minus)
  have k1: "fl 9007199254740995 = 9007199254740996"
    using fl_tie [of 53 9007199254740995 4503599627370497] by simp
  have k2: "fl (9007199254740996 / 5) = 7205759403792797 / 4"
    by (rule fl_value [of 50 _ 7205759403792797]) (simp_all add: power_int_minus)
  have k: "calculatePaidAndFree_double 9007199254741000 BUY_2_GET_3_FREE
          = \<lparr>paid = 1801439850948202, free = 7205759403792798\<rparr>"
    by (simp add: calculatePaidAndFree_double_def fl_int_def Math_ceil_def k1 k2 fl_numeral
          ceiling_rat_numeral_quot Let_def)
  have a: "fl 9999999999999995 = 9999999999999996"
    using fl_tie [of 53 9999999999999995 4999999999999997] by simp
  have b: "fl (9999999999999996 / 5) = 7999999999999997 / 4"
    using fl_near [of 50 "9999999999999996 / 5" 7999999999999997] by (simp add: power_int_minus)
  have c: "fl 10000000000000000 = 10000000000000000"
    using fl_dyadic [of 152587890625 16] by simp
  have "calculatePaidAndFree_double 10000000000000000 BUY_2_GET_3_FREE
          = \<lparr>paid = 2000000000000002, free = 7999999999999998\<rparr>"
    by (simp add: calculatePaidAndFree_double_def fl_int_def Math_ceil_def a b fl_numeral
          ceiling_rat_numeral_quot Let_def)
  then show ?thesis using c k k0 by (simp add: generalPolicy_closed)
qed

section \<open>The special case of the smallest tier\<close>

text \<open>
  Claim C3. For every non-negative total quantity the resolver's special case for
  \<open>BUY_1_GET_1_FREE\<close>, paid = floor (totalQuantity / 2) + totalQuantity mod 2 and
  free = totalQuantity - paid, gives the same pair as the general policy with first paid
  count 1 and first-cycle total 2.
\<close>

theorem buy_1_get_1_free_is_general_policy:
  assumes "0 \<le> totalQuantity"
  shows "calculatePaidAndFree totalQuantity BUY_1_GET_1_FREE = generalPolicy 1 2 totalQuantity
       \<and> paid (calculatePaidAndFree totalQuantity BUY_1_GET_1_FREE)
           = totalQuantity div 2 + totalQuantity mod 2
       \<and> free (calculatePaidAndFree totalQuantity BUY_1_GET_1_FREE)
           = totalQuantity - (totalQuantity div 2 + totalQuantity mod 2)"
  using assms
  by (auto simp: calculatePaidAndFree_closed generalPolicy_closed min_def) presburger+

theorem buy_1_get_1_free_is_general_policy_witness:
  "(0::int) \<le> 5
   \<and> calculatePaidAndFree 5 BUY_1_GET_1_FREE = generalPolicy 1 2 5
   \<and> generalPolicy 1 2 5 = \<lparr>paid = 3, free = 2\<rparr>"
  using buy_1_get_1_free_is_general_policy [of 5]
  by (simp add: generalPolicy_closed)

section \<open>Cart totals\<close>




section \<open>Adding to an existing line\<close>

text \<open>
  Claim C5. When \<open>addToCart\<close> is called for a fruit that already has a line in the
  user's cart, that is a line whose fruit id as the backend reads it equals the fruit id
  of the request, the quantity resolved is the line's paid count plus its free count
  plus the requested quantity, the tier is the one the catalog has for the fruit now
  (not the one stored on the line), and the line's paid and free counts are replaced by
  the resolver's result; the cart returned, with its totals recalculated, is the one
  stored. Adding 2 and then 3 of a fruit offered \<open>BUY_1_GET_1_FREE\<close> to a cart without
  a line for it yields one line for it, with paid 3 and free 2, in the in-memory backend,
  and in the database backend when the fruit id of the requests is the text of its object
  id. In the database backend with a fruit id written with capital hexadecimal digits,
  the second add does not find the line the first add created, whose fruit id reads in
  lower case: it pushes a second line, and the cart has a line with paid 1 and free 1
  and a line with paid 2 and free 1.
\<close>

theorem addToCart_existing_line:
  "(FruitModel s (dto_fruitId itemData) = Some fruit \<and> inStock fruit
      \<and> dto_quantity itemData \<le> stockQuantity fruit
      \<and> items (currentCart s uid) = xs
      \<and> findIndex (\<lambda>item. fruitId item = dto_fruitId itemData) xs = i \<and> i \<noteq> - 1
      \<and> r = calculatePaidAndFree
                (quantity (xs ! nat i) + freeItems (xs ! nat i) + dto_quantity itemData)
                (fruit_offerType fruit)
    \<longrightarrow> snd (addToCart s uid itemData)
          = Inr (recalculated (currentCart s uid) (xs[nat i := withSplit (xs ! nat i) r]))
        \<and> storedCart (fst (addToCart s uid itemData)) uid
          = Some (recalculated (currentCart s uid) (xs[nat i := withSplit (xs ! nat i) r])))
   \<and> (FruitModel s fid = Some fruit2 \<and> fruit_offerType fruit2 = BUY_1_GET_1_FREE
        \<and> inStock fruit2 \<and> 3 \<le> stockQuantity fruit2
        \<and> findIndex (\<lambda>item. fruitId item = fid) (items (currentCart s uid)) = - 1
        \<and> (USE_IN_MEMORY s \<or> canonicalObjectId fid)
      \<longrightarrow> map_sum id items
            (snd (addToCart (fst (addToCart s uid \<lparr>dto_fruitId = fid, dto_quantity = 2\<rparr>)) uid
                    \<lparr>dto_fruitId = fid, dto_quantity = 3\<rparr>))
          = Inr (items (currentCart s uid)
                   @ [\<lparr>fruitId = fid, name = fruit_name fruit2, price = fruit_price fruit2,
                        quantity = 3, offerType = BUY_1_GET_1_FREE, freeItems = 2\<rparr>]))
   \<and> map_sum id items
        (snd (addToCart
                (fst (addToCart hexState ''u''
                        \<lparr>dto_fruitId = ''5F8D0D55B54764421B7156C3'', dto_quantity = 2\<rparr>))
                ''u'' \<lparr>dto_fruitId = ''5F8D0D55B54764421B7156C3'', dto_quantity = 3\<rparr>))
       = Inr [hexLine 1 1, hexLine 2 1]"
proof (intro conjI impI)
  assume a: "FruitModel s (dto_fruitId itemData) = Some fruit \<and> inStock fruit
      \<and> dto_quantity itemData \<le> stockQuantity fruit
      \<and> items (currentCart s uid) = xs
      \<and> findIndex (\<lambda>item. fruitId item = dto_fruitId itemData) xs = i \<and> i \<noteq> - 1
      \<and> r = calculatePaidAndFree
                (quantity (xs ! nat i) + freeItems (xs ! nat i) + dto_quantity itemData)
                (fruit_offerType fruit)"
  let ?id = "newLineFruitId s (dto_fruitId itemData)"
  from a have r: "addToCart s uid itemData =
           (saveCart s uid
              (recalculated (currentCart s uid) (addToCart_items ?id xs itemData fruit)),
            Inr (recalculated (currentCart s uid) (addToCart_items ?id xs itemData fruit)))"
    using addToCart_current by blast
  have i: "addToCart_items ?id xs itemData fruit = xs[nat i := withSplit (xs ! nat i) r]"
    using a addToCart_items_existing [of itemData xs i ?id fruit] by simp
  show "snd (addToCart s uid itemData)
          = Inr (recalculated (currentCart s uid) (xs[nat i := withSplit (xs ! nat i) r]))"
    by (simp add: r i)
  show "storedCart (fst (addToCart s uid itemData)) uid
          = Some (recalculated (currentCart s uid) (xs[nat i := withSplit (xs ! nat i) r]))"
    by (simp add: r i)
next
  assume b: "FruitModel s fid = Some fruit2 \<and> fruit_offerType fruit2 = BUY_1_GET_1_FREE
        \<and> inStock fruit2 \<and> 3 \<le> stockQuantity fruit2
        \<and> findIndex (\<lambda>item. fruitId item = fid) (items (currentCart s uid)) = - 1
        \<and> (USE_IN_MEMORY s \<or> canonicalObjectId fid)"
  let ?xs = "items (currentCart s uid)"
  let ?l1 = "\<lparr>fruitId = fid, name = fruit_name fruit2, price = fruit_price fruit2,
               quantity = 1, offerType = BUY_1_GET_1_FREE, freeItems = 1\<rparr>"
  let ?l2 = "\<lparr>fruitId = fid, name = fruit_name fruit2, price = fruit_price fruit2,
               quantity = 3, offerType = BUY_1_GET_1_FREE, freeItems = 2\<rparr>"
  let ?c1 = "recalculated (currentCart s uid) (?xs @ [?l1])"
  have n: "newLineFruitId s fid = fid" using b by (simp add: newLineFruitId_canonical)
  have i1: "addToCart_items fid ?xs \<lparr>dto_fruitId = fid, dto_quantity = 2\<rparr> fruit2 = ?xs @ [?l1]"
    using b by (simp add: addToCart_items_new calculatePaidAndFree_closed)
  have s1: "addToCart s uid \<lparr>dto_fruitId = fid, dto_quantity = 2\<rparr> = (saveCart s uid ?c1, Inr ?c1)"
    using b addToCart_current [of s "\<lparr>dto_fruitId = fid, dto_quantity = 2\<rparr>" fruit2 uid] i1 n
    by simp
  have f: "findIndex (\<lambda>item. fruitId item = fid) (?xs @ [?l1]) = int (length ?xs)"
    using b by (simp add: findIndex_append_new)
  have i2: "addToCart_items fid (?xs @ [?l1]) \<lparr>dto_fruitId = fid, dto_quantity = 3\<rparr> fruit2
              = ?xs @ [?l2]"
    using b by (simp add: addToCart_items_def Let_def f calculatePaidAndFree_closed)
  have n2: "newLineFruitId (saveCart s uid ?c1) fid = fid"
    using n by (simp add: newLineFruitId_def)
  have s2: "snd (addToCart (saveCart s uid ?c1) uid \<lparr>dto_fruitId = fid, dto_quantity = 3\<rparr>)
              = Inr (recalculated ?c1 (?xs @ [?l2]))"
    using b addToCart_current [of "saveCart s uid ?c1" "\<lparr>dto_fruitId = fid, dto_quantity = 3\<rparr>" fruit2 uid]
          i2 n2
    by (simp add: recalculated_fields)
  show "map_sum id items
            (snd (addToCart (fst (addToCart s uid \<lparr>dto_fruitId = fid, dto_quantity = 2\<rparr>)) uid
                    \<lparr>dto_fruitId = fid, dto_quantity = 3\<rparr>))
          = Inr (?xs @ [?l2])"
    by (simp add: s1 s2 recalculated_fields)
next
  let ?c1 = "\<lparr>items = [hexLine 1 1], totalItems = 2, totalPrice = 20,
              discountAmount = 10, finalPrice = 10\<rparr>"
  let ?c2 = "\<lparr>items = [hexLine 1 1, hexLine 2 1], totalItems = 5, totalPrice = 50,
              discountAmount = 20, finalPrice = 30\<rparr>"
  have a1: "addToCart hexState ''u'' \<lparr>dto_fruitId = ''5F8D0D55B54764421B7156C3'', dto_quantity = 2\<rparr>
              = (saveCart hexState ''u'' ?c1, Inr ?c1)"
    by (subst addToCart_current
          [where fruit = "the (FruitModel hexState ''5F8D0D55B54764421B7156C3'')"])
       (simp_all add: cart_eval hexLine_def ObjectId_toString_upper)
  have a2: "addToCart (saveCart hexState ''u'' ?c1) ''u''
              \<lparr>dto_fruitId = ''5F8D0D55B54764421B7156C3'', dto_quantity = 3\<rparr>
              = (saveCart hexState ''u'' ?c2, Inr ?c2)"
    by (subst addToCart_current
          [where fruit = "the (FruitModel hexState ''5F8D0D55B54764421B7156C3'')"])
       (simp_all add: cart_eval hexLine_def ObjectId_toString_upper)
  show "map_sum id items
        (snd (addToCart
                (fst (addToCart hexState ''u''
                        \<lparr>dto_fruitId = ''5F8D0D55B54764421B7156C3'', dto_quantity = 2\<rparr>))
                ''u'' \<lparr>dto_fruitId = ''5F8D0D55B54764421B7156C3'', dto_quantity = 3\<rparr>))
       = Inr [hexLine 1 1, hexLine 2 1]"
    by (simp add: a1 a2)
qed


theorem addToCart_existing_line_witness:
  "FruitModel staleState ''apple''
     = Some \<lparr>fruit_name = ''Apple'', fruit_price = 10, fruit_offerType = BUY_2_GET_3_FREE,
             inStock = True, stockQuantity = 5\<rparr>
   \<and> findIndex (\<lambda>item. fruitId item = ''apple'') (items (currentCart staleState ''u'')) = 0
   \<and> offerType (items (currentCart staleState ''u'') ! 0) = BUY_1_GET_1_FREE
   \<and> snd (addToCart staleState ''u'' \<lparr>dto_fruitId = ''apple'', dto_quantity = 3\<rparr>)
       = Inr \<lparr>items = [appleLine 2 3], totalItems = 5, totalPrice = 50,
              discountAmount = 30, finalPrice = 20\<rparr>
   \<and> storedCart (fst (addToCart staleState ''u'' \<lparr>dto_fruitId = ''apple'', dto_quantity = 3\<rparr>)) ''u''
       = Some \<lparr>items = [appleLine 2 3], totalItems = 5, totalPrice = 50,
               discountAmount = 30, finalPrice = 20\<rparr>
   \<and> demoFruits ''apple''
       = Some \<lparr>fruit_name = ''Apple'', fruit_price = 10, fruit_offerType = BUY_1_GET_1_FREE,
               inStock = True, stockQuantity = 5\<rparr>
   \<and> USE_IN_MEMORY (demoState True)
   \<and> findIndex (\<lambda>item. fruitId item = ''apple'') (items (currentCart (demoState True) ''u'')) = - 1
   \<and> map_sum id items
        (snd (addToCart
                (fst (addToCart (demoState True) ''u'' \<lparr>dto_fruitId = ''apple'', dto_quantity = 2\<rparr>))
                ''u'' \<lparr>dto_fruitId = ''apple'', dto_quantity = 3\<rparr>))
       = Inr [appleLine 3 2]
   \<and> FruitModel hexState ''5f8d0d55b54764421b7156c3''
       = Some \<lparr>fruit_name = ''Apple'', fruit_price = 10, fruit_offerType = BUY_1_GET_1_FREE,
               inStock = True, stockQuantity = 5\<rparr>
   \<and> \<not> USE_IN_MEMORY hexState \<and> canonicalObjectId ''5f8d0d55b54764421b7156c3''
   \<and> findIndex (\<lambda>item. fruitId item = ''5f8d0d55b54764421b7156c3'')
         (items (currentCart hexState ''u'')) = - 1
   \<and> map_sum id items
        (snd (addToCart
                (fst (addToCart hexState ''u''
                        \<lparr>dto_fruitId = ''5f8d0d55b54764421b7156c3'', dto_quantity = 2\<rparr>))
                ''u'' \<lparr>dto_fruitId = ''5f8d0d55b54764421b7156c3'', dto_quantity = 3\<rparr>))
       = Inr [hexLine 3 2]"
proof -
  have c: "canonicalObjectId ''5f8d0d55b54764421b7156c3''"
    by code_simp
  show ?thesis
    using addToCart_existing_line
          [of staleState "\<lparr>dto_fruitId = ''apple'', dto_quantity = 3\<rparr>"
              "\<lparr>fruit_name = ''Apple'', fruit_price = 10, fruit_offerType = BUY_2_GET_3_FREE,
                inStock = True, stockQuantity = 5\<rparr>" "''u''" "[appleLine 1 1]" 0
              "\<lparr>paid = 2, free = 3\<rparr>" "''apple''"
              "\<lparr>fruit_name = ''Apple'', fruit_price = 10, fruit_offerType = BUY_1_GET_1_FREE,
                inStock = True, stockQuantity = 5\<rparr>"]
        addToCart_existing_line
          [of "demoState True" "\<lparr>dto_fruitId = ''apple'', dto_quantity = 3\<rparr>"
              "\<lparr>fruit_name = ''Apple'', fruit_price = 10, fruit_offerType = BUY_1_GET_1_FREE,
                inStock = True, stockQuantity = 5\<rparr>" "''u''" "[]" "- 1"
              "\<lparr>paid = 0, free = 0\<rparr>" "''apple''"
              "\<lparr>fruit_name = ''Apple'', fruit_price = 10, fruit_offerType = BUY_1_GET_1_FREE,
                inStock = True, stockQuantity = 5\<rparr>"]
        addToCart_existing_line
          [of hexState "\<lparr>dto_fruitId = ''apple'', dto_quantity = 3\<rparr>"
              "\<lparr>fruit_name = ''Apple'', fruit_price = 10, fruit_offerType = BUY_1_GET_1_FREE,
                inStock = True, stockQuantity = 5\<rparr>" "''u''" "[]" "- 1"
              "\<lparr>paid = 0, free = 0\<rparr>" "''5f8d0d55b54764421b7156c3''"
              "\<lparr>fruit_name = ''Apple'', fruit_price = 10, fruit_offerType = BUY_1_GET_1_FREE,
                inStock = True, stockQuantity = 5\<rparr>"]
        c
    by (simp add: cart_eval withSplit_def hexLine_def)
qed

section \<open>Setting a quantity\<close>



section \<open>Transaction entries\<close>



section \<open>Checkout of an empty cart\<close>

text \<open>
  Claim C8. For a user whose cart has no lines, \<open>checkout\<close> fails with the error
  ``Cart is empty'' and no transaction is created; nothing is requested from the
  authentication service, the catalog is untouched and every cart reads as before.
\<close>

theorem checkout_empty_cart:
  assumes "items (currentCart s uid) = []"
  shows "snd (checkout s auth uid checkoutData) = Inl (Error ''Cart is empty'')
       \<and> TransactionHistory (fst (checkout s auth uid checkoutData)) = TransactionHistory s
       \<and> authRequests (fst (checkout s auth uid checkoutData)) = authRequests s
       \<and> FruitModel (fst (checkout s auth uid checkoutData)) = FruitModel s
       \<and> (\<forall>u. currentCart (fst (checkout s auth uid checkoutData)) u = currentCart s u)"
proof -
  obtain s1 r1 where l: "loadCartData s uid = (s1, r1)" by (cases "loadCartData s uid")
  have s1: "s1 = fst (getCart s uid)" using l fst_loadCartData [of s uid] by simp
  have r1: "r1 = (if USE_IN_MEMORY s then Inr (currentCart s uid) else Inl (Error ''Cart is empty''))"
    using l snd_loadCartData [of s uid] assms by simp
  have "checkout s auth uid checkoutData = (fst (getCart s uid), Inl (Error ''Cart is empty''))"
    using l s1 r1 assms by (simp add: checkout_def)
  then show ?thesis by simp
qed

theorem checkout_empty_cart_witness:
  "items (currentCart (demoState False) ''u'') = []
   \<and> snd (checkout (demoState False) \<lparr>profile = Inr 100, deductBalance = (\<lambda>amount. None)\<rparr> ''u''
            \<lparr>dto_paymentMethod = ''WALLET'', dto_notes = None\<rparr>) = Inl (Error ''Cart is empty'')
   \<and> TransactionHistory
        (fst (checkout (demoState False) \<lparr>profile = Inr 100, deductBalance = (\<lambda>amount. None)\<rparr> ''u''
                \<lparr>dto_paymentMethod = ''WALLET'', dto_notes = None\<rparr>)) = []
   \<and> items (currentCart (demoState True) ''u'') = []
   \<and> snd (checkout (demoState True) \<lparr>profile = Inr 100, deductBalance = (\<lambda>amount. None)\<rparr> ''u''
            \<lparr>dto_paymentMethod = ''WALLET'', dto_notes = None\<rparr>) = Inl (Error ''Cart is empty'')"
  using checkout_empty_cart
          [of "demoState False" "''u''" "\<lparr>profile = Inr 100, deductBalance = (\<lambda>amount. None)\<rparr>"
              "\<lparr>dto_paymentMethod = ''WALLET'', dto_notes = None\<rparr>"]
        checkout_empty_cart
          [of "demoState True" "''u''" "\<lparr>profile = Inr 100, deductBalance = (\<lambda>amount. None)\<rparr>"
              "\<lparr>dto_paymentMethod = ''WALLET'', dto_notes = None\<rparr>"]
  by (simp add: emptyCart_def)

section \<open>Insufficient wallet balance\<close>

text \<open>
  Claim C9. When \<open>checkout\<close> is called with the payment method \<open>WALLET\<close> (in any
  letter case) on a cart with lines, and the balance the authentication service reports
  is strictly less than the final price of the cart as loaded, it fails with the error
  ``Wallet payment failed: Insufficient wallet balance'' and leaves the state as it
  was: no deduction is requested, no transaction is created and the cart is intact.
\<close>

theorem checkout_insufficient_wallet_balance:
  assumes "items (currentCart s uid) \<noteq> []"
    and "toUpperCase (dto_paymentMethod checkoutData) = ''WALLET''"
    and "snd (loadCartData s uid) = Inr cartData"
    and "profile auth = Inr balance"
    and "balance < finalPrice cartData"
  shows "snd (checkout s auth uid checkoutData)
           = Inl (Error ''Wallet payment failed: Insufficient wallet balance'')
       \<and> fst (checkout s auth uid checkoutData) = s
       \<and> authRequests (fst (checkout s auth uid checkoutData)) = authRequests s
       \<and> TransactionHistory (fst (checkout s auth uid checkoutData)) = TransactionHistory s
       \<and> storedCart (fst (checkout s auth uid checkoutData)) uid = storedCart s uid"
proof -
  have l: "loadCartData s uid = (s, Inr cartData)"
    using assms(1,3) fst_loadCartData [of s uid] fst_getCart_nonempty [of s uid]
    by (simp add: prod_eq_iff)
  have i: "items cartData \<noteq> []" using assms(1,3) loadCartData_items by simp
  have p: "map_of PaymentMethod_values (toUpperCase (dto_paymentMethod checkoutData)) = Some WALLET"
    using assms(2) by (simp add: PaymentMethod_values_def)
  have w: "walletPayment s auth cartData
             = (s, Some (Error ''Wallet payment failed: Insufficient wallet balance''))"
    using assms(4,5) by (simp add: walletPayment_def)
  show ?thesis
    by (simp add: checkout_def l i p w del: map_of.simps)
qed

theorem checkout_insufficient_wallet_balance_witness:
  "items (currentCart fullState ''u'') \<noteq> []
   \<and> toUpperCase ''wallet'' = ''WALLET''
   \<and> snd (loadCartData fullState ''u'')
       = Inr \<lparr>items = [appleLine 3 2], totalItems = 5, totalPrice = 50,
               discountAmount = 20, finalPrice = 30\<rparr>
   \<and> (10::rat) < 30
   \<and> checkout fullState \<lparr>profile = Inr 10, deductBalance = (\<lambda>amount. None)\<rparr> ''u''
        \<lparr>dto_paymentMethod = ''wallet'', dto_notes = None\<rparr>
       = (fullState, Inl (Error ''Wallet payment failed: Insufficient wallet balance''))"
proof -
  have u: "toUpperCase ''wallet'' = ''WALLET''"
    by code_simp
  show ?thesis
    using checkout_insufficient_wallet_balance
            [of fullState "''u''" "\<lparr>dto_paymentMethod = ''wallet'', dto_notes = None\<rparr>"
                "\<lparr>items = [appleLine 3 2], totalItems = 5, totalPrice = 50,
                  discountAmount = 20, finalPrice = 30\<rparr>"
                "\<lparr>profile = Inr 10, deductBalance = (\<lambda>amount. None)\<rparr>" 10]
          u
    by (simp add: loadCartData_fullState prod_eq_iff)
qed

section \<open>The stock check\<close>



end
